theory Spec2Isabelle
  imports Complex_Main "HOL-Library.Log_Nat"
begin

section \<open>Values shared by the storage layer and the request handlers\<close>

text \<open>
  Every call on the storage object is an awaited promise: it either resolves to a value
  or rejects. A rejection is \<open>Inl StorageError\<close>, a resolved value is \<open>Inr v\<close>.
\<close>

datatype error = StorageError

type_synonym 'a promise = "error + 'a"

text \<open>
  Sequencing of awaited calls inside one \<open>async\<close> function: a rejection leaves the
  function at once (it propagates to the caller, or to the enclosing \<open>catch\<close>).
\<close>

definition await :: "'a promise \<Rightarrow> ('a \<Rightarrow> 'b promise) \<Rightarrow> 'b promise" where
  "await p k = (case p of Inl e \<Rightarrow> Inl e | Inr v \<Rightarrow> k v)"

text \<open>
  Numbers. A \<open>decimal(10,2)\<close> column reaches the code as a non-empty string such as
  \<open>"15.00"\<close>; the code only tests that string for truthiness (true for every non-null
  decimal, since the text is never empty) and reads it with \<open>parseFloat\<close>. The model keeps
  the value \<open>parseFloat\<close> yields, as a rational, and \<open>None\<close> for SQL NULL. Comparisons of
  such values are the comparisons of the numbers they denote.
\<close>

type_synonym decimal = rat

definition truthy_decimal :: "decimal option \<Rightarrow> bool" where
  "truthy_decimal d = (case d of None \<Rightarrow> False | Some _ \<Rightarrow> True)"

section \<open>Strings: digit stripping and relational comparison\<close>

text \<open>
  \<open>s.replace(/\D/g, '')\<close> deletes every character that is not one of \<open>0\<close> .. \<open>9\<close>.
\<close>

definition is_digit :: "char \<Rightarrow> bool" where
  "is_digit c = (c \<in> set ''0123456789'')"

definition strip_non_digits :: "string \<Rightarrow> string" where
  "strip_non_digits s = filter is_digit s"

text \<open>
  The relational operators of JavaScript on two strings compare them unit by unit, by
  character code; a proper prefix is smaller. \<open>a >= b\<close> is \<open>\<not> a < b\<close> and
  \<open>a <= b\<close> is \<open>\<not> b < a\<close>.
\<close>

fun js_string_lt :: "string \<Rightarrow> string \<Rightarrow> bool" where
  "js_string_lt [] [] = False"
| "js_string_lt [] (y # ys) = True"
| "js_string_lt (x # xs) [] = False"
| "js_string_lt (x # xs) (y # ys) =
     (if (of_char x :: nat) < of_char y then True
      else if (of_char y :: nat) < of_char x then False
      else js_string_lt xs ys)"

definition js_string_ge :: "string \<Rightarrow> string \<Rightarrow> bool" where
  "js_string_ge a b = (\<not> js_string_lt a b)"

definition js_string_le :: "string \<Rightarrow> string \<Rightarrow> bool" where
  "js_string_le a b = (\<not> js_string_lt b a)"

section \<open>Rows of the schema\<close>

text \<open>
  One record per table, a field per column; a nullable column is an \<open>option\<close>.
  Timestamps are milliseconds since the epoch. Tables whose rows the modelled functions
  only count or look up keep the columns those functions read.
\<close>

record Store =
  store_id :: string
  store_userId :: string
  store_slug :: string

record Product =
  product_id :: string
  product_storeId :: string
  product_isActive :: "bool option"

record Order =
  order_id :: string
  order_storeId :: string
  order_status :: "string option"
  order_createdAt :: "int option"
  order_updatedAt :: "int option"

record Plan =
  plan_id :: string
  plan_name :: string
  plan_slug :: string
  price :: decimal
  stripePriceId :: "string option"
  maxProducts :: "int option"
  maxOrders :: "int option"
  features :: "string list option"
  plan_isActive :: "bool option"
  plan_createdAt :: "int option"

record Subscription =
  sub_id :: string
  sub_userId :: string
  planId :: string
  sub_status :: string
  stripeSubscriptionId :: "string option"
  stripeCustomerId :: "string option"
  currentPeriodStart :: "int option"
  currentPeriodEnd :: "int option"
  cancelAtPeriodEnd :: "bool option"
  sub_createdAt :: "int option"
  sub_updatedAt :: "int option"

text \<open>\<open>Subscription & { plan: Plan }\<close>, the row with its plan beside its own columns.\<close>

record SubscriptionWithPlan = Subscription +
  plan :: Plan

record ShippingConfig =
  config_storeId :: string
  freeShippingThreshold :: "decimal option"
  defaultShippingCost :: "decimal option"

record ShippingZone =
  zone_storeId :: string
  zone_name :: string
  zipCodeStart :: string
  zipCodeEnd :: string
  shippingCost :: decimal
  estimatedDays :: "int option"
  zone_isActive :: "bool option"

section \<open>The storage interface\<close>

text \<open>
  The reads of \<open>IStorage\<close> that the modelled code performs. \<open>getShippingZones\<close> returns
  the active zones of a store in the order the query produced them. The handlers are
  untyped on the request (\<open>req: any\<close>), so \<open>getStoreByUserId\<close> can be handed an
  undefined user id by the limit gates; what it does then is the storage's own business.
\<close>

record IStorage =
  getStoreByUserId :: "string option \<Rightarrow> Store option promise"
  getStoreBySlug :: "string \<Rightarrow> Store option promise"
  getProductsByStoreId :: "string \<Rightarrow> Product list promise"
  getOrdersByStoreId :: "string \<Rightarrow> Order list promise"
  getAllPlans :: "Plan list promise"
  getPlanBySlug :: "string \<Rightarrow> Plan option promise"
  getSubscriptionByUserId :: "string \<Rightarrow> SubscriptionWithPlan option promise"
  getShippingConfig :: "string \<Rightarrow> ShippingConfig option promise"
  getShippingZones :: "string \<Rightarrow> ShippingZone list promise"

section \<open>Shipping quote: \<open>calculateShipping\<close> and \<open>POST /api/shipping/calculate\<close>\<close>

record Quote =
  cost :: decimal
  quote_estimatedDays :: int

text \<open>\<open>zone.estimatedDays || 7\<close>: \<open>null\<close> and \<open>0\<close> are both falsy.\<close>

definition estimatedDays_or_7 :: "int option \<Rightarrow> int" where
  "estimatedDays_or_7 d = (case d of None \<Rightarrow> 7 | Some n \<Rightarrow> if n = 0 then 7 else n)"

text \<open>The test in the body of the \<open>for\<close> loop, on one zone.\<close>

definition zone_contains :: "ShippingZone \<Rightarrow> string \<Rightarrow> bool" where
  "zone_contains zone cleanZip =
     (let zipStart = strip_non_digits (zipCodeStart zone);
          zipEnd = strip_non_digits (zipCodeEnd zone)
      in js_string_ge cleanZip zipStart \<and> js_string_le cleanZip zipEnd)"

text \<open>
  The \<open>for (const zone of zones)\<close> loop: the first zone that contains the zip returns
  from the function; \<open>None\<close> is falling out of the loop.
\<close>

fun zone_loop :: "ShippingZone list \<Rightarrow> string \<Rightarrow> Quote option" where
  "zone_loop [] cleanZip = None"
| "zone_loop (zone # zones) cleanZip =
     (if zone_contains zone cleanZip
      then Some \<lparr>cost = shippingCost zone,
                 quote_estimatedDays = estimatedDays_or_7 (estimatedDays zone)\<rparr>
      else zone_loop zones cleanZip)"

text \<open>
  \<open>config?.freeShippingThreshold && parseFloat(config.freeShippingThreshold) > 0\<close>,
  then \<open>orderTotal >= parseFloat(config.freeShippingThreshold)\<close>.
\<close>

definition free_shipping_applies :: "ShippingConfig option \<Rightarrow> decimal \<Rightarrow> bool" where
  "free_shipping_applies config orderTotal =
     (case config of
        None \<Rightarrow> False
      | Some c \<Rightarrow>
          truthy_decimal (freeShippingThreshold c) \<and>
          (case freeShippingThreshold c of
             None \<Rightarrow> False
           | Some t \<Rightarrow> 0 < t \<and> t \<le> orderTotal))"

text \<open>
  \<open>config?.defaultShippingCost ? parseFloat(config.defaultShippingCost) : 0\<close>.
\<close>

definition defaultCost :: "ShippingConfig option \<Rightarrow> decimal" where
  "defaultCost config =
     (case config of
        None \<Rightarrow> 0
      | Some c \<Rightarrow> (case defaultShippingCost c of None \<Rightarrow> 0 | Some d \<Rightarrow> d))"

definition calculateShipping ::
  "IStorage \<Rightarrow> string \<Rightarrow> string \<Rightarrow> decimal \<Rightarrow> Quote promise" where
  "calculateShipping this storeId zipCode orderTotal =
     await (getShippingConfig this storeId) (\<lambda>config.
       let cleanZip = strip_non_digits zipCode in
       if free_shipping_applies config orderTotal
       then Inr \<lparr>cost = 0, quote_estimatedDays = 7\<rparr>
       else
         await (getShippingZones this storeId) (\<lambda>zones.
           case zone_loop zones cleanZip of
             Some q \<Rightarrow> Inr q
           | None \<Rightarrow> Inr \<lparr>cost = defaultCost config, quote_estimatedDays = 7\<rparr>))"

text \<open>
  The route. A missing or empty \<open>storeSlug\<close> or \<open>zipCode\<close> is answered 400, an unknown
  store 404, a rejection 500. \<open>orderTotal || 0\<close> turns a missing total into \<open>0\<close>. The body
  of the answer carries the cost (the source sends its \<open>toString()\<close>), the days and
  \<open>isFree: shipping.cost === 0\<close>.
\<close>

record ShippingBody =
  body_shippingCost :: decimal
  body_estimatedDays :: int
  isFree :: bool

datatype shipping_response =
    ShippingOk ShippingBody
  | ShippingBadRequest
  | ShippingStoreNotFound
  | ShippingFailed

definition shipping_body :: "Quote \<Rightarrow> ShippingBody" where
  "shipping_body shipping =
     \<lparr>body_shippingCost = cost shipping,
      body_estimatedDays = quote_estimatedDays shipping,
      isFree = (cost shipping = 0)\<rparr>"

definition orderTotal_or_0 :: "decimal option \<Rightarrow> decimal" where
  "orderTotal_or_0 t = (case t of None \<Rightarrow> 0 | Some x \<Rightarrow> x)"

definition shipping_calculate_route ::
  "IStorage \<Rightarrow> string option \<Rightarrow> string option \<Rightarrow> decimal option \<Rightarrow> shipping_response" where
  "shipping_calculate_route storage storeSlug zipCode orderTotal =
     (case storeSlug of
        None \<Rightarrow> ShippingBadRequest
      | Some slug \<Rightarrow>
     (case zipCode of
        None \<Rightarrow> ShippingBadRequest
      | Some code \<Rightarrow>
          if slug = [] \<or> code = [] then ShippingBadRequest
          else
            (case getStoreBySlug storage slug of
               Inl e \<Rightarrow> ShippingFailed
             | Inr None \<Rightarrow> ShippingStoreNotFound
             | Inr (Some store) \<Rightarrow>
                 (case calculateShipping storage (store_id store) code
                         (orderTotal_or_0 orderTotal) of
                    Inl e \<Rightarrow> ShippingFailed
                  | Inr shipping \<Rightarrow> ShippingOk (shipping_body shipping)))))"

section \<open>Plan catalogue: \<open>GET /api/plans\<close>\<close>

text \<open>
  The route keeps two variables across requests, \<open>plansCache\<close> (initially \<open>null\<close>) and
  \<open>plansCacheTime\<close> (initially \<open>0\<close>); \<open>now\<close> is \<open>Date.now()\<close>.
\<close>

record PlansCacheState =
  plansCache :: "Plan list option"
  plansCacheTime :: int

definition initial_cache :: PlansCacheState where
  "initial_cache = \<lparr>plansCache = None, plansCacheTime = 0\<rparr>"

definition CACHE_TTL :: int where
  "CACHE_TTL = 5 * 60 * 1000"

text \<open>
  The four plans written into the handler. Their texts are the bytes of the source file
  (UTF-8), bytes outside ASCII given by their codes.
\<close>

definition fallback_gratis :: Plan where
  "fallback_gratis =
     \<lparr>plan_id = ''gratis'',
      plan_name = ''Gr'' @ [CHR 0xE2, CHR 0x88, CHR 0x9A, CHR 0xC2, CHR 0xB0] @ ''tis'',
      plan_slug = ''gratis'',
      price = 0,
      stripePriceId = None,
      maxProducts = Some 5,
      maxOrders = Some 10,
      features = Some
         [''At'' @ [CHR 0xE2, CHR 0x88, CHR 0x9A, CHR 0xC2, CHR 0xA9] @ '' 5 produtos'',
          ''At'' @ [CHR 0xE2, CHR 0x88, CHR 0x9A, CHR 0xC2, CHR 0xA9] @ '' 10 pedidos/m'' @ [CHR 0xE2, CHR 0x88, CHR 0x9A, CHR 0xE2, CHR 0x84, CHR 0xA2] @ ''s'',
          ''Loja b'' @ [CHR 0xE2, CHR 0x88, CHR 0x9A, CHR 0xC2, CHR 0xB0] @ ''sica'',
          ''Suporte por email''],
      plan_isActive = Some True,
      plan_createdAt = None\<rparr>"

definition fallback_basico :: Plan where
  "fallback_basico =
     \<lparr>plan_id = ''basico'',
      plan_name = ''B'' @ [CHR 0xE2, CHR 0x88, CHR 0x9A, CHR 0xC2, CHR 0xB0] @ ''sico'',
      plan_slug = ''basico'',
      price = 2990 / 100,
      stripePriceId = None,
      maxProducts = Some 50,
      maxOrders = Some 100,
      features = Some
         [''At'' @ [CHR 0xE2, CHR 0x88, CHR 0x9A, CHR 0xC2, CHR 0xA9] @ '' 50 produtos'',
          ''At'' @ [CHR 0xE2, CHR 0x88, CHR 0x9A, CHR 0xC2, CHR 0xA9] @ '' 100 pedidos/m'' @ [CHR 0xE2, CHR 0x88, CHR 0x9A, CHR 0xE2, CHR 0x84, CHR 0xA2] @ ''s'',
          ''Personaliza'' @ [CHR 0xE2, CHR 0x88, CHR 0x9A, CHR 0xC3, CHR 0x9F, CHR 0xE2, CHR 0x88, CHR 0x9A, CHR 0xC2, CHR 0xA3] @ ''o de cores'',
          ''Cupons de desconto'',
          ''Suporte priorit'' @ [CHR 0xE2, CHR 0x88, CHR 0x9A, CHR 0xC2, CHR 0xB0] @ ''rio''],
      plan_isActive = Some True,
      plan_createdAt = None\<rparr>"

definition fallback_profissional :: Plan where
  "fallback_profissional =
     \<lparr>plan_id = ''profissional'',
      plan_name = ''Profissional'',
      plan_slug = ''profissional'',
      price = 7990 / 100,
      stripePriceId = None,
      maxProducts = Some 200,
      maxOrders = None,
      features = Some
         [''At'' @ [CHR 0xE2, CHR 0x88, CHR 0x9A, CHR 0xC2, CHR 0xA9] @ '' 200 produtos'',
          ''Pedidos ilimitados'',
          ''Personaliza'' @ [CHR 0xE2, CHR 0x88, CHR 0x9A, CHR 0xC3, CHR 0x9F, CHR 0xE2, CHR 0x88, CHR 0x9A, CHR 0xC2, CHR 0xA3] @ ''o completa'',
          ''Cupons ilimitados'',
          ''An'' @ [CHR 0xE2, CHR 0x88, CHR 0x9A, CHR 0xC2, CHR 0xB0] @ ''lises avan'' @ [CHR 0xE2, CHR 0x88, CHR 0x9A, CHR 0xC3, CHR 0x9F] @ ''adas'',
          ''Suporte VIP''],
      plan_isActive = Some True,
      plan_createdAt = None\<rparr>"

definition fallback_enterprise :: Plan where
  "fallback_enterprise =
     \<lparr>plan_id = ''enterprise'',
      plan_name = ''Enterprise'',
      plan_slug = ''enterprise'',
      price = 19990 / 100,
      stripePriceId = None,
      maxProducts = None,
      maxOrders = None,
      features = Some
         [''Produtos ilimitados'',
          ''Pedidos ilimitados'',
          ''Todas as funcionalidades'',
          ''API personalizada'',
          ''Suporte dedicado 24/7''],
      plan_isActive = Some True,
      plan_createdAt = None\<rparr>"

definition fallbackPlans :: "Plan list" where
  "fallbackPlans = [fallback_gratis, fallback_basico, fallback_profissional, fallback_enterprise]"

text \<open>
  The handler always answers 200 with a list of plans. Inside \<open>try\<close>: a cache that exists
  (an array, even an empty one, is truthy) and is younger than the TTL is returned;
  otherwise the plans are fetched and the cache is replaced. Inside \<open>catch\<close>, reached when
  the fetch rejects: the cache if there is one, else the hardcoded list.
\<close>

definition get_plans_route ::
  "IStorage \<Rightarrow> int \<Rightarrow> PlansCacheState \<Rightarrow> PlansCacheState \<times> Plan list" where
  "get_plans_route storage now st =
     (let fetch =
            (case getAllPlans storage of
               Inr plans \<Rightarrow> (\<lparr>plansCache = Some plans, plansCacheTime = now\<rparr>, plans)
             | Inl e \<Rightarrow>
                 (case plansCache st of
                    Some cached \<Rightarrow> (st, cached)
                  | None \<Rightarrow> (st, fallbackPlans)))
      in case plansCache st of
           Some cached \<Rightarrow> if now - plansCacheTime st < CACHE_TTL then (st, cached) else fetch
         | None \<Rightarrow> fetch)"

section \<open>Subscriptions: the query and \<open>GET /api/subscription\<close>\<close>

text \<open>
  \<open>getPlanBySlug\<close>: the first row of \<open>plans\<close> with the slug, if any.
\<close>

definition DatabaseStorage_getPlanBySlug :: "Plan list \<Rightarrow> string \<Rightarrow> Plan option" where
  "DatabaseStorage_getPlanBySlug plans slug = find (\<lambda>p. plan_slug p = slug) plans"

text \<open>
  \<open>ORDER BY created_at DESC LIMIT 1\<close>. PostgreSQL sorts NULL before every value in
  descending order; \<open>sorts_before a b\<close> says that key \<open>a\<close> comes strictly earlier than
  key \<open>b\<close> in that order. Among rows with equal keys the database may return any; the
  model returns the one that stands first in the table.
\<close>

definition sorts_before :: "int option \<Rightarrow> int option \<Rightarrow> bool" where
  "sorts_before a b =
     (case a of
        None \<Rightarrow> (case b of None \<Rightarrow> False | Some y \<Rightarrow> True)
      | Some x \<Rightarrow> (case b of None \<Rightarrow> False | Some y \<Rightarrow> y < x))"

fun order_desc_limit_1 :: "Subscription list \<Rightarrow> Subscription option" where
  "order_desc_limit_1 [] = None"
| "order_desc_limit_1 (r # rs) =
     (case order_desc_limit_1 rs of
        None \<Rightarrow> Some r
      | Some r' \<Rightarrow> if sorts_before (sub_createdAt r') (sub_createdAt r) then Some r' else Some r)"

text \<open>\<open>{ ...subscription.subscriptions, plan: subscription.plans }\<close>.\<close>

definition with_plan :: "Subscription \<Rightarrow> Plan \<Rightarrow> SubscriptionWithPlan" where
  "with_plan s p =
     \<lparr>sub_id = sub_id s, sub_userId = sub_userId s, planId = planId s,
      sub_status = sub_status s, stripeSubscriptionId = stripeSubscriptionId s,
      stripeCustomerId = stripeCustomerId s, currentPeriodStart = currentPeriodStart s,
      currentPeriodEnd = currentPeriodEnd s, cancelAtPeriodEnd = cancelAtPeriodEnd s,
      sub_createdAt = sub_createdAt s, sub_updatedAt = sub_updatedAt s, plan = p\<rparr>"

text \<open>
  \<open>getSubscriptionByUserId\<close>: the user's rows, newest first, one row, left-joined with
  the plan row whose id is the row's \<open>planId\<close> (\<open>plans.id\<close> is the primary key, so the
  join finds at most one); \<open>undefined\<close> when there is no row or the join found no plan.
\<close>

definition DatabaseStorage_getSubscriptionByUserId ::
  "Subscription list \<Rightarrow> Plan list \<Rightarrow> string \<Rightarrow> SubscriptionWithPlan option" where
  "DatabaseStorage_getSubscriptionByUserId subscriptions plans userId =
     (case order_desc_limit_1 (filter (\<lambda>s. sub_userId s = userId) subscriptions) of
        None \<Rightarrow> None
      | Some s \<Rightarrow>
          (case find (\<lambda>p. plan_id p = planId s) plans of
             None \<Rightarrow> None
           | Some p \<Rightarrow> Some (with_plan s p)))"

text \<open>
  A storage object whose subscription and plan reads are these queries over the tables
  \<open>subscriptions\<close> and \<open>plans\<close>, the database answering.
\<close>

definition reads_tables :: "IStorage \<Rightarrow> Subscription list \<Rightarrow> Plan list \<Rightarrow> bool" where
  "reads_tables storage subscriptions plans =
     (getSubscriptionByUserId storage =
        (\<lambda>userId. Inr (DatabaseStorage_getSubscriptionByUserId subscriptions plans userId)) \<and>
      getPlanBySlug storage = (\<lambda>slug. Inr (DatabaseStorage_getPlanBySlug plans slug)))"

text \<open>
  What the handlers call the subscription of a request: either the object
  \<open>{status: "active", plan: freePlan, isFree: true}\<close> built on the spot (\<open>freePlan\<close> is
  \<open>undefined\<close> when no plan has the slug), or the joined row.
\<close>

datatype subscription_view =
    Synthesized "Plan option"
  | Stored SubscriptionWithPlan

fun view_status :: "subscription_view \<Rightarrow> string" where
  "view_status (Synthesized freePlan) = ''active''"
| "view_status (Stored s) = sub_status s"

fun view_plan :: "subscription_view \<Rightarrow> Plan option" where
  "view_plan (Synthesized freePlan) = freePlan"
| "view_plan (Stored s) = Some (plan s)"

fun view_isFree :: "subscription_view \<Rightarrow> bool option" where
  "view_isFree (Synthesized freePlan) = Some True"
| "view_isFree (Stored s) = None"

datatype subscription_response =
    SubscriptionOk subscription_view
  | SubscriptionFailed

definition get_subscription_route :: "IStorage \<Rightarrow> string \<Rightarrow> subscription_response" where
  "get_subscription_route storage userId =
     (case getSubscriptionByUserId storage userId of
        Inl e \<Rightarrow> SubscriptionFailed
      | Inr None \<Rightarrow>
          (case getPlanBySlug storage ''gratis'' of
             Inl e \<Rightarrow> SubscriptionFailed
           | Inr freePlan \<Rightarrow> SubscriptionOk (Synthesized freePlan))
      | Inr (Some subscription) \<Rightarrow> SubscriptionOk (Stored subscription))"

section \<open>The middleware of \<open>subscriptionMiddleware.ts\<close>\<close>

text \<open>
  The texts of the answers are named, not spelled: each constructor stands for one
  literal of the source; the two limit messages are templates over the limit and the
  plan's name.
\<close>

datatype message =
    NotAuthenticated
  | SubscriptionInactive
  | SubscriptionCheckFailed
  | StoreNotFound
  | ProductLimitReached int string
  | ProductLimitCheckFailed
  | OrderLimitReached int string
  | OrderLimitCheckFailed

record LimitPayload =
  message :: message
  limit :: int
  current :: nat
  upgradeRequired :: bool
  redirectTo :: string

datatype body =
    Message message
  | MessageRedirect message string
  | LimitExceeded LimitPayload

text \<open>\<open>res.status(code).json(body)\<close>.\<close>

datatype reply = Reply nat body

text \<open>
  The part of the request the middleware reads and writes: \<open>req.user?.claims?.sub\<close> and
  \<open>req.subscription\<close>.
\<close>

record Request =
  claims_sub :: "string option"
  req_subscription :: "subscription_view option"

text \<open>A middleware either calls \<open>next()\<close>, handing the request on, or answers.\<close>

datatype outcome = Next Request | Responded reply

definition requireActiveSubscription :: "IStorage \<Rightarrow> Request \<Rightarrow> outcome" where
  "requireActiveSubscription storage req =
     (case claims_sub req of
        None \<Rightarrow> Responded (Reply 401 (Message NotAuthenticated))
      | Some userId \<Rightarrow>
          if userId = [] then Responded (Reply 401 (Message NotAuthenticated))
          else
            (case getSubscriptionByUserId storage userId of
               Inl e \<Rightarrow> Responded (Reply 500 (Message SubscriptionCheckFailed))
             | Inr None \<Rightarrow>
                 (case getPlanBySlug storage ''gratis'' of
                    Inl e \<Rightarrow> Responded (Reply 500 (Message SubscriptionCheckFailed))
                  | Inr freePlan \<Rightarrow> Next (req\<lparr>req_subscription := Some (Synthesized freePlan)\<rparr>))
             | Inr (Some subscription) \<Rightarrow>
                 if sub_status subscription \<noteq> ''active''
                 then Responded (Reply 403
                        (MessageRedirect SubscriptionInactive ''/dashboard/subscription''))
                 else Next (req\<lparr>req_subscription := Some (Stored subscription)\<rparr>)))"

text \<open>\<open>subscription?.plan\<close>.\<close>

definition optional_plan :: "subscription_view option \<Rightarrow> Plan option" where
  "optional_plan sub = (case sub of None \<Rightarrow> None | Some v \<Rightarrow> view_plan v)"

definition checkProductLimit :: "IStorage \<Rightarrow> Request \<Rightarrow> outcome" where
  "checkProductLimit storage req =
     (case getStoreByUserId storage (claims_sub req) of
        Inl e \<Rightarrow> Responded (Reply 500 (Message ProductLimitCheckFailed))
      | Inr None \<Rightarrow> Responded (Reply 404 (Message StoreNotFound))
      | Inr (Some store) \<Rightarrow>
          (case optional_plan (req_subscription req) of
             None \<Rightarrow> Next req
           | Some pl \<Rightarrow>
               (case maxProducts pl of
                  None \<Rightarrow> Next req
                | Some cap \<Rightarrow>
                    (case getProductsByStoreId storage (store_id store) of
                       Inl e \<Rightarrow> Responded (Reply 500 (Message ProductLimitCheckFailed))
                     | Inr currentProducts \<Rightarrow>
                         if cap \<le> int (length currentProducts)
                         then Responded (Reply 403 (LimitExceeded
                                \<lparr>message = ProductLimitReached cap (plan_name pl),
                                 limit = cap,
                                 current = length currentProducts,
                                 upgradeRequired = True,
                                 redirectTo = ''/dashboard/subscription''\<rparr>))
                         else Next req))))"

text \<open>
  Dates. A \<open>Date\<close> is an instant, in milliseconds since the epoch. The calendar and the
  server's time zone belong to the JavaScript runtime, which the code reaches through
  three operations: \<open>getFullYear()\<close> and \<open>getMonth()\<close> read the year and the month index
  (0 to 11) of an instant in server-local time, and \<open>new Date(year, monthIndex, day)\<close>
  is the instant of midnight, server-local time, at the start of that day.
\<close>

record DateRuntime =
  getFullYear :: "int \<Rightarrow> int"
  getMonth :: "int \<Rightarrow> int"
  newDate :: "int \<Rightarrow> int \<Rightarrow> int \<Rightarrow> int"

text \<open>
  \<open>new Date(now.getFullYear(), now.getMonth(), 1)\<close>, with \<open>now\<close> the instant of
  \<open>new Date()\<close>.
\<close>

definition firstDayOfMonth :: "DateRuntime \<Rightarrow> int \<Rightarrow> int" where
  "firstDayOfMonth date now = newDate date (getFullYear date now) (getMonth date now) 1"

text \<open>
  \<open>new Date(order.createdAt)\<close> has the instant of the column, and the epoch for \<open>null\<close>.
\<close>

definition date_value :: "int option \<Rightarrow> int" where
  "date_value t = (case t of None \<Rightarrow> 0 | Some ms \<Rightarrow> ms)"

text \<open>
  The orders of the current month:
  \<open>orders.filter(order => new Date(order.createdAt) >= firstDayOfMonth)\<close>.
\<close>

definition ordersThisMonth :: "DateRuntime \<Rightarrow> int \<Rightarrow> Order list \<Rightarrow> Order list" where
  "ordersThisMonth date now orders =
     filter (\<lambda>order. firstDayOfMonth date now \<le> date_value (order_createdAt order)) orders"

definition checkOrderLimit :: "IStorage \<Rightarrow> DateRuntime \<Rightarrow> int \<Rightarrow> Request \<Rightarrow> outcome" where
  "checkOrderLimit storage date now req =
     (case getStoreByUserId storage (claims_sub req) of
        Inl e \<Rightarrow> Responded (Reply 500 (Message OrderLimitCheckFailed))
      | Inr None \<Rightarrow> Responded (Reply 404 (Message StoreNotFound))
      | Inr (Some store) \<Rightarrow>
          (case optional_plan (req_subscription req) of
             None \<Rightarrow> Next req
           | Some pl \<Rightarrow>
               (case maxOrders pl of
                  None \<Rightarrow> Next req
                | Some cap \<Rightarrow>
                    (case getOrdersByStoreId storage (store_id store) of
                       Inl e \<Rightarrow> Responded (Reply 500 (Message OrderLimitCheckFailed))
                     | Inr currentOrders \<Rightarrow>
                         if cap \<le> int (length (ordersThisMonth date now currentOrders))
                         then Responded (Reply 403 (LimitExceeded
                                \<lparr>message = OrderLimitReached cap (plan_name pl),
                                 limit = cap,
                                 current = length (ordersThisMonth date now currentOrders),
                                 upgradeRequired = True,
                                 redirectTo = ''/dashboard/subscription''\<rparr>))
                         else Next req))))"

text \<open>
  \<open>app.post("/api/products", isAuthenticated, requireActiveSubscription,
  checkProductLimit, handler)\<close>, from the point where \<open>isAuthenticated\<close> has called
  \<open>next()\<close>. The handler is the mutation the gates guard: it takes the state of the
  application to a new state and an answer. Each middleware reads the storage of the
  current state; a middleware that answers ends the chain.
\<close>

datatype 'r route_reply = FromMiddleware reply | FromHandler 'r

definition post_products ::
  "('s \<Rightarrow> IStorage) \<Rightarrow> ('s \<Rightarrow> Request \<Rightarrow> 's \<times> 'r) \<Rightarrow> 's \<Rightarrow> Request \<Rightarrow> 's \<times> 'r route_reply" where
  "post_products storage handler s req =
     (case requireActiveSubscription (storage s) req of
        Responded r \<Rightarrow> (s, FromMiddleware r)
      | Next req1 \<Rightarrow>
          (case checkProductLimit (storage s) req1 of
             Responded r \<Rightarrow> (s, FromMiddleware r)
           | Next req2 \<Rightarrow>
               (case handler s req2 of (s', r) \<Rightarrow> (s', FromHandler r))))"

section \<open>Usage: \<open>getPlanUsage\<close>\<close>

text \<open>
  Numbers of JavaScript are IEEE 754 doubles. A finite double is kept as the rational
  it denotes. \<open>to_double q\<close> is the double nearest to \<open>q\<close>, ties going to the even
  significand: with \<open>2 ^ e \<le> |q| < 2 ^ (e + 1)\<close> the doubles around \<open>q\<close> are the multiples
  of \<open>2 ^ (e - 52)\<close>. The exponent is not bounded here, so the function is the IEEE
  rounding wherever the result is a normal double, which covers every quotient of an
  array length by a 32-bit integer column and its product with 100.
\<close>

definition pow2 :: "int \<Rightarrow> rat" where
  "pow2 k = (if 0 \<le> k then 2 ^ nat k else 1 / 2 ^ nat (- k))"

definition binary_exponent :: "rat \<Rightarrow> int" where
  "binary_exponent q =
     (if 1 \<le> q then bitlen \<lfloor>q\<rfloor> - 1 else - bitlen (\<lceil>1 / q\<rceil> - 1))"

definition round_half_even :: "rat \<Rightarrow> int" where
  "round_half_even x =
     (let f = \<lfloor>x\<rfloor>; d = x - of_int f
      in if d < 1 / 2 then f
         else if 1 / 2 < d then f + 1
         else if even f then f else f + 1)"

definition to_double :: "rat \<Rightarrow> rat" where
  "to_double q =
     (if q = 0 then 0
      else let ulp = pow2 (binary_exponent \<bar>q\<bar> - 52)
           in sgn q * of_int (round_half_even (\<bar>q\<bar> / ulp)) * ulp)"

text \<open>
  The values the percentages can take: finite doubles, \<open>Infinity\<close> and \<open>NaN\<close>. An array
  length divided by an integer column (both are exact as doubles): the quotient is
  rounded; by zero it is \<open>NaN\<close> for a zero length and \<open>Infinity\<close> otherwise. The product
  with 100 is rounded again. The two zeros of the doubles are one value here; both are
  sent as \<open>0\<close>.
\<close>

datatype number = Finite rat | Infinity | NaN

definition js_divide :: "nat \<Rightarrow> int \<Rightarrow> number" where
  "js_divide n d =
     (if d = 0 then (if n = 0 then NaN else Infinity)
      else Finite (to_double (of_nat n / of_int d)))"

definition js_times_100 :: "number \<Rightarrow> number" where
  "js_times_100 x =
     (case x of
        Finite r \<Rightarrow> Finite (to_double (r * 100))
      | Infinity \<Rightarrow> Infinity
      | NaN \<Rightarrow> NaN)"

text \<open>
  \<open>plan?.maxProducts ? (products.length / plan.maxProducts) * 100 : 0\<close>, with
  \<open>cap\<close> the value of \<open>plan?.maxProducts\<close>: \<open>null\<close>, \<open>undefined\<close> and \<open>0\<close> are falsy.
\<close>

definition usage_percentage :: "nat \<Rightarrow> int option \<Rightarrow> number" where
  "usage_percentage count cap =
     (case cap of
        None \<Rightarrow> Finite 0
      | Some l \<Rightarrow> if l = 0 then Finite 0 else js_times_100 (js_divide count l))"

record PlanSummary =
  summary_name :: "string option"
  summary_slug :: "string option"
  summary_maxProducts :: "int option"
  summary_maxOrders :: "int option"

record UsageEntry =
  usage_current :: nat
  usage_limit :: "int option"
  percentage :: number

record Usage =
  usage_products :: UsageEntry
  usage_orders :: UsageEntry

record PlanUsage =
  usage_plan :: PlanSummary
  usage :: Usage

text \<open>\<open>plan?.field\<close> for a nullable column: \<open>None\<close> is \<open>null\<close> or \<open>undefined\<close>.\<close>

definition plan_field :: "Plan option \<Rightarrow> (Plan \<Rightarrow> 'a option) \<Rightarrow> 'a option" where
  "plan_field p f = (case p of None \<Rightarrow> None | Some q \<Rightarrow> f q)"

definition usage_report :: "Plan option \<Rightarrow> Product list \<Rightarrow> Order list \<Rightarrow> PlanUsage" where
  "usage_report p productList monthOrders =
     \<lparr>usage_plan =
        \<lparr>summary_name = map_option plan_name p,
         summary_slug = map_option plan_slug p,
         summary_maxProducts = plan_field p maxProducts,
         summary_maxOrders = plan_field p maxOrders\<rparr>,
      usage =
        \<lparr>usage_products =
           \<lparr>usage_current = length productList,
            usage_limit = plan_field p maxProducts,
            percentage = usage_percentage (length productList) (plan_field p maxProducts)\<rparr>,
         usage_orders =
           \<lparr>usage_current = length monthOrders,
            usage_limit = plan_field p maxOrders,
            percentage = usage_percentage (length monthOrders) (plan_field p maxOrders)\<rparr>\<rparr>\<rparr>"

text \<open>
  Inside \<open>getPlanUsage\<close> every rejection is caught and turned into \<open>null\<close>.
\<close>

definition await_or_null :: "'a promise \<Rightarrow> ('a \<Rightarrow> 'b option) \<Rightarrow> 'b option" where
  "await_or_null p k = (case p of Inl e \<Rightarrow> None | Inr v \<Rightarrow> k v)"

definition getPlanUsage :: "IStorage \<Rightarrow> DateRuntime \<Rightarrow> int \<Rightarrow> string \<Rightarrow> PlanUsage option" where
  "getPlanUsage storage date now userId =
     await_or_null (getStoreByUserId storage (Some userId)) (\<lambda>store.
       case store of
         None \<Rightarrow> None
       | Some st \<Rightarrow>
           await_or_null (getSubscriptionByUserId storage userId) (\<lambda>sub.
           await_or_null
             (case sub of
                Some s \<Rightarrow> Inr (Some (plan s))
              | None \<Rightarrow> getPlanBySlug storage ''gratis'') (\<lambda>p.
           await_or_null (getProductsByStoreId storage (store_id st)) (\<lambda>productList.
           await_or_null (getOrdersByStoreId storage (store_id st)) (\<lambda>orderList.
             Some (usage_report p productList (ordersThisMonth date now orderList)))))))"

text \<open>
  \<open>updateOrder(id, {status})\<close>: the rows with the id get the new status and a new
  \<open>updatedAt\<close>; nothing else changes.
\<close>

definition updateOrder_status :: "int \<Rightarrow> string \<Rightarrow> string \<Rightarrow> Order list \<Rightarrow> Order list" where
  "updateOrder_status now oid st orderList =
     map (\<lambda>order. if order_id order = oid
                    then order\<lparr>order_status := Some st, order_updatedAt := Some now\<rparr>
                    else order) orderList"

section \<open>Notions the statements refer to\<close>

text \<open>
  The lexicographic order of strings by character code, from the library's \<open>lexord\<close>:
  the order the specification names for zip codes and zone bounds.
\<close>

definition code_unit_less :: "(char \<times> char) set" where
  "code_unit_less = {(x, y). (of_char x :: nat) < of_char y}"

definition lex_le :: "string \<Rightarrow> string \<Rightarrow> bool" where
  "lex_le a b = (a = b \<or> (a, b) \<in> lexord code_unit_less)"

text \<open>A zone's range contains a cleaned zip: \<open>start \<le> zip \<le> end\<close>, lexicographically.\<close>

definition in_zone_range :: "ShippingZone \<Rightarrow> string \<Rightarrow> bool" where
  "in_zone_range zone cleanZip =
     (lex_le (strip_non_digits (zipCodeStart zone)) cleanZip \<and>
      lex_le cleanZip (strip_non_digits (zipCodeEnd zone)))"

text \<open>\<open>estimatedDays ?? 7\<close>, as the specification writes the days of a matched zone.\<close>

definition nullish_or_7 :: "int option \<Rightarrow> int" where
  "nullish_or_7 d = (case d of None \<Rightarrow> 7 | Some n \<Rightarrow> n)"

text \<open>
  The most recently created row among \<open>rows\<close>: it has a creation time, and every row
  has a creation time that is not later.
\<close>

definition most_recent :: "Subscription \<Rightarrow> Subscription list \<Rightarrow> bool" where
  "most_recent row rows =
     (row \<in> set rows \<and>
      (case sub_createdAt row of
         None \<Rightarrow> False
       | Some t \<Rightarrow>
           (\<forall>r \<in> set rows.
              case sub_createdAt r of None \<Rightarrow> False | Some t' \<Rightarrow> t' \<le> t)))"

text \<open>
  The keys the schema declares: \<open>plans.id\<close> is the primary key of the plans, and
  \<open>subscriptions.plan_id\<close> is not null and references it.
\<close>

definition plan_keys :: "Subscription list \<Rightarrow> Plan list \<Rightarrow> bool" where
  "plan_keys subscriptions plans =
     (distinct (map plan_id plans) \<and>
      (\<forall>s \<in> set subscriptions. \<exists>p \<in> set plans. plan_id p = planId s))"

text \<open>
  The same storage, reading a subscriptions table from which the rows of one user have
  been deleted.
\<close>

definition without_rows_of ::
  "string \<Rightarrow> IStorage \<Rightarrow> Subscription list \<Rightarrow> Plan list \<Rightarrow> IStorage" where
  "without_rows_of userId storage subscriptions plans =
     storage\<lparr>getSubscriptionByUserId :=
       (\<lambda>u. Inr (DatabaseStorage_getSubscriptionByUserId
                   (filter (\<lambda>s. sub_userId s \<noteq> userId) subscriptions) plans u))\<rparr>"

text \<open>
  The percentage as the specification words it: \<open>current / limit * 100\<close> whenever the
  limit is not null, and 0 when it is null.
\<close>

definition spec_percentage :: "nat \<Rightarrow> int option \<Rightarrow> number" where
  "spec_percentage n cap =
     (case cap of None \<Rightarrow> Finite 0 | Some l \<Rightarrow> js_times_100 (js_divide n l))"

section \<open>Sample data\<close>

text \<open>A storage in which every read resolves and finds nothing.\<close>

definition empty_storage :: IStorage where
  "empty_storage =
     \<lparr>getStoreByUserId = (\<lambda>userId. Inr None),
      getStoreBySlug = (\<lambda>slug. Inr None),
      getProductsByStoreId = (\<lambda>storeId. Inr []),
      getOrdersByStoreId = (\<lambda>storeId. Inr []),
      getAllPlans = Inr [],
      getPlanBySlug = (\<lambda>slug. Inr None),
      getSubscriptionByUserId = (\<lambda>userId. Inr None),
      getShippingConfig = (\<lambda>storeId. Inr None),
      getShippingZones = (\<lambda>storeId. Inr [])\<rparr>"

text \<open>
  A store with the two zones of the specification's example, and a zone whose bounds
  are written with a hyphen and whose delivery takes zero days.
\<close>

definition store_1 :: Store where
  "store_1 = \<lparr>store_id = ''store-1'', store_userId = ''user-1'', store_slug = ''loja''\<rparr>"

definition zone_sp :: ShippingZone where
  "zone_sp = \<lparr>zone_storeId = ''store-1'', zone_name = ''A'', zipCodeStart = ''01000000'',
     zipCodeEnd = ''05999999'', shippingCost = 10, estimatedDays = Some 3,
     zone_isActive = Some True\<rparr>"

definition zone_gsp :: ShippingZone where
  "zone_gsp = \<lparr>zone_storeId = ''store-1'', zone_name = ''B'', zipCodeStart = ''06000000'',
     zipCodeEnd = ''09999999'', shippingCost = 20, estimatedDays = Some 5,
     zone_isActive = Some True\<rparr>"

definition zone_same_day :: ShippingZone where
  "zone_same_day = \<lparr>zone_storeId = ''store-1'', zone_name = ''C'', zipCodeStart = ''01000-000'',
     zipCodeEnd = ''05999-999'', shippingCost = 10, estimatedDays = Some 0,
     zone_isActive = Some True\<rparr>"

text \<open>
  The storage of that store: its shipping configuration has the given threshold and
  default cost, and the zone query returns the given zones.
\<close>

definition shop_storage :: "decimal option \<Rightarrow> decimal option \<Rightarrow> ShippingZone list \<Rightarrow> IStorage" where
  "shop_storage threshold dflt zones =
     empty_storage
       \<lparr>getStoreBySlug := (\<lambda>slug. if slug = ''loja'' then Inr (Some store_1) else Inr None),
        getShippingConfig := (\<lambda>storeId. if storeId = ''store-1''
           then Inr (Some \<lparr>config_storeId = ''store-1'', freeShippingThreshold = threshold,
                           defaultShippingCost = dflt\<rparr>)
           else Inr None),
        getShippingZones := (\<lambda>storeId. if storeId = ''store-1'' then Inr zones else Inr [])\<rparr>"

text \<open>
  The store of user \<open>user-1\<close> with its table of products as the state of the
  application: the storage reads the table, the plan of slug \<open>gratis\<close> is the given one
  (if any), nobody has a subscription row, and the guarded handler inserts one product.
\<close>

definition sample_product :: Product where
  "sample_product =
     \<lparr>product_id = ''p'', product_storeId = ''store-1'', product_isActive = Some True\<rparr>"

definition catalogue_storage :: "Plan option \<Rightarrow> Product list \<Rightarrow> IStorage" where
  "catalogue_storage freePlan table =
     empty_storage
       \<lparr>getStoreByUserId :=
          (\<lambda>userId. if userId = Some ''user-1'' then Inr (Some store_1) else Inr None),
        getPlanBySlug := (\<lambda>slug. if slug = ''gratis'' then Inr freePlan else Inr None),
        getProductsByStoreId :=
          (\<lambda>storeId. Inr (filter (\<lambda>p. product_storeId p = storeId) table))\<rparr>"

definition create_product :: "Product list \<Rightarrow> Request \<Rightarrow> Product list \<times> string" where
  "create_product table req = (sample_product # table, ''created'')"

definition request_user_1 :: Request where
  "request_user_1 = \<lparr>claims_sub = Some ''user-1'', req_subscription = None\<rparr>"

text \<open>A storage whose subscription and plan reads are the queries over two tables.\<close>

definition table_storage :: "Subscription list \<Rightarrow> Plan list \<Rightarrow> IStorage" where
  "table_storage subscriptions plans =
     empty_storage
       \<lparr>getStoreByUserId :=
          (\<lambda>userId. if userId = Some ''user-1'' then Inr (Some store_1) else Inr None),
        getPlanBySlug := (\<lambda>slug. Inr (DatabaseStorage_getPlanBySlug plans slug)),
        getSubscriptionByUserId :=
          (\<lambda>userId. Inr (DatabaseStorage_getSubscriptionByUserId subscriptions plans userId))\<rparr>"

text \<open>
  Rows of user \<open>user-1\<close>: an older active subscription to the basic plan, a newer
  canceled one to the professional plan, and a row whose plan does not exist.
\<close>

definition older_row :: Subscription where
  "older_row =
     \<lparr>sub_id = ''sub-1'', sub_userId = ''user-1'', planId = ''basico'', sub_status = ''active'',
      stripeSubscriptionId = None, stripeCustomerId = None, currentPeriodStart = None,
      currentPeriodEnd = None, cancelAtPeriodEnd = Some False, sub_createdAt = Some 1000,
      sub_updatedAt = Some 1000\<rparr>"

definition newer_row :: Subscription where
  "newer_row =
     \<lparr>sub_id = ''sub-2'', sub_userId = ''user-1'', planId = ''profissional'',
      sub_status = ''canceled'', stripeSubscriptionId = None, stripeCustomerId = None,
      currentPeriodStart = None, currentPeriodEnd = None, cancelAtPeriodEnd = Some True,
      sub_createdAt = Some 2000, sub_updatedAt = Some 3000\<rparr>"

definition orphan_row :: Subscription where
  "orphan_row =
     \<lparr>sub_id = ''sub-3'', sub_userId = ''user-1'', planId = ''removed'',
      sub_status = ''past_due'', stripeSubscriptionId = None, stripeCustomerId = None,
      currentPeriodStart = None, currentPeriodEnd = None, cancelAtPeriodEnd = Some False,
      sub_createdAt = Some 4000, sub_updatedAt = Some 4000\<rparr>"

text \<open>
  The storage of user \<open>user-1\<close>'s store for the usage report: the user has no
  subscription row, the plan of slug \<open>gratis\<close> is the given one, and the product and
  order queries return the given lists.
\<close>

definition usage_storage :: "Plan option \<Rightarrow> Product list \<Rightarrow> Order list \<Rightarrow> IStorage" where
  "usage_storage freePlan productList orderList =
     empty_storage
       \<lparr>getStoreByUserId :=
          (\<lambda>userId. if userId = Some ''user-1'' then Inr (Some store_1) else Inr None),
        getPlanBySlug := (\<lambda>slug. if slug = ''gratis'' then Inr freePlan else Inr None),
        getProductsByStoreId :=
          (\<lambda>storeId. if storeId = ''store-1'' then Inr productList else Inr []),
        getOrdersByStoreId :=
          (\<lambda>storeId. if storeId = ''store-1'' then Inr orderList else Inr [])\<rparr>"

text \<open>
  A runtime for a server whose zone stays at a fixed offset from UTC (\<open>offset\<close>
  milliseconds ahead): the proleptic Gregorian calendar, days counted from the epoch,
  months numbered from 1 inside the two conversions. As in JavaScript, the constructor
  reads a year from 0 to 99 as 1900 plus that year and lets the month index run over
  into the neighbouring years.
\<close>

definition days_from_civil :: "int \<Rightarrow> int \<Rightarrow> int \<Rightarrow> int" where
  "days_from_civil y m d =
     (let y' = (if m \<le> 2 then y - 1 else y);
          era = y' div 400;
          yoe = y' - era * 400;
          doy = (153 * (if 2 < m then m - 3 else m + 9) + 2) div 5 + d - 1;
          doe = yoe * 365 + yoe div 4 - yoe div 100 + doy
      in era * 146097 + doe - 719468)"

definition civil_from_days :: "int \<Rightarrow> int \<times> int \<times> int" where
  "civil_from_days z =
     (let z' = z + 719468;
          era = z' div 146097;
          doe = z' - era * 146097;
          yoe = (doe - doe div 1460 + doe div 36524 - doe div 146096) div 365;
          doy = doe - (365 * yoe + yoe div 4 - yoe div 100);
          mp = (5 * doy + 2) div 153;
          d = doy - (153 * mp + 2) div 5 + 1;
          m = (if mp < 10 then mp + 3 else mp - 9)
      in (yoe + era * 400 + (if m \<le> 2 then 1 else 0), m, d))"

definition fixed_offset_runtime :: "int \<Rightarrow> DateRuntime" where
  "fixed_offset_runtime offset =
     \<lparr>getFullYear = (\<lambda>t. fst (civil_from_days ((t + offset) div 86400000))),
      getMonth = (\<lambda>t. fst (snd (civil_from_days ((t + offset) div 86400000))) - 1),
      newDate = (\<lambda>y m d.
        let months = (if 0 \<le> y \<and> y \<le> 99 then 1900 + y else y) * 12 + m
        in (days_from_civil (months div 12) (months mod 12 + 1) 1 + (d - 1)) * 86400000
           - offset)\<rparr>"

text \<open>
  A server three hours behind UTC, on 15 November 2025 at 10:00 local time. The month
  then started at \<open>month_start\<close>, 1 November 2025 at 00:00:00 local time.
\<close>

definition server_runtime :: DateRuntime where
  "server_runtime = fixed_offset_runtime (- 10800000)"

definition server_now :: int where
  "server_now = 1763211600000"

definition month_start :: int where
  "month_start = 1761966000000"

text \<open>
  Orders around the start of that month: one is created one millisecond before
  \<open>month_start\<close> (on the last day of the month before), one at that instant and already
  cancelled, one a day later.
\<close>

definition order_at :: "string \<Rightarrow> int \<Rightarrow> string \<Rightarrow> Order" where
  "order_at oid t st =
     \<lparr>order_id = oid, order_storeId = ''store-1'', order_status = Some st,
      order_createdAt = Some t, order_updatedAt = Some t\<rparr>"

definition sample_orders :: "Order list" where
  "sample_orders =
     [order_at ''o-3'' (month_start + 86400000) ''pending'',
      order_at ''o-2'' month_start ''cancelled'',
      order_at ''o-1'' (month_start - 1) ''delivered'']"

text \<open>A plan that allows no product at all.\<close>

definition closed_plan :: Plan where
  "closed_plan = fallback_gratis\<lparr>maxProducts := Some 0\<rparr>"

text \<open>
  The same store when user \<open>user-1\<close> has an active subscription to the basic plan
  (50 products).
\<close>

definition subscribed_storage :: "Product list \<Rightarrow> Order list \<Rightarrow> IStorage" where
  "subscribed_storage productList orderList =
     (usage_storage (Some fallback_gratis) productList orderList)
       \<lparr>getSubscriptionByUserId :=
          (\<lambda>userId. if userId = ''user-1''
             then Inr (Some (with_plan older_row fallback_basico))
             else Inr None)\<rparr>"

section \<open>The order of strings\<close>

text \<open>
  The comparison of the code is the lexicographic order by character code, and it is
  total; so \<open>>=\<close> and \<open><=\<close> are that order's \<open>\<ge>\<close> and \<open>\<le>\<close>.
\<close>

lemma js_string_lt_lexord: "js_string_lt a b \<longleftrightarrow> (a, b) \<in> lexord code_unit_less"
  by (induction a b rule: js_string_lt.induct) (auto simp: code_unit_less_def)

lemma js_string_lt_total: "js_string_lt a b \<or> a = b \<or> js_string_lt b a"
  by (induction a b rule: js_string_lt.induct) auto

lemma js_string_lt_asym: "js_string_lt a b \<Longrightarrow> \<not> js_string_lt b a"
  by (induction a b rule: js_string_lt.induct) (auto split: if_splits)

lemma js_string_lt_irrefl: "\<not> js_string_lt a a"
  using js_string_lt_asym by blast

lemma js_string_le_lex: "js_string_le a b \<longleftrightarrow> lex_le a b"
  unfolding js_string_le_def lex_le_def js_string_lt_lexord [symmetric]
  using js_string_lt_total [of a b] js_string_lt_asym [of a b] js_string_lt_irrefl [of a]
  by blast

lemma js_string_ge_lex: "js_string_ge a b \<longleftrightarrow> lex_le b a"
  unfolding js_string_ge_def lex_le_def js_string_lt_lexord [symmetric]
  using js_string_lt_total [of a b] js_string_lt_asym [of b a] js_string_lt_irrefl [of a]
  by blast

lemma zone_contains_range: "zone_contains zone cleanZip \<longleftrightarrow> in_zone_range zone cleanZip"
  by (simp add: zone_contains_def in_zone_range_def js_string_le_lex js_string_ge_lex)

section \<open>Properties of the shipping quote\<close>

lemma zone_loop_first_match:
  assumes "\<forall>z \<in> set before. \<not> zone_contains z c" and "zone_contains zone c"
  shows "zone_loop (before @ zone # after) c =
           Some \<lparr>cost = shippingCost zone,
                 quote_estimatedDays = estimatedDays_or_7 (estimatedDays zone)\<rparr>"
  using assms by (induction before) simp_all

lemma zone_loop_no_match:
  "(\<forall>z \<in> set zones. \<not> zone_contains z c) \<Longrightarrow> zone_loop zones c = None"
  by (induction zones) simp_all

lemma free_shipping_applies_iff:
  "free_shipping_applies config orderTotal \<longleftrightarrow>
     (\<exists>c t. config = Some c \<and> freeShippingThreshold c = Some t \<and> 0 < t \<and> t \<le> orderTotal)"
  by (auto simp: free_shipping_applies_def truthy_decimal_def split: option.splits)

text \<open>
  C1. Whenever the store's configuration has a free-shipping threshold that is greater
  than zero and the order subtotal is at least that threshold, \<open>calculateShipping\<close>
  resolves to cost 0 and 7 days, and the route answers with cost 0, 7 days and
  \<open>isFree = true\<close>. The zone query is not consulted: the result is the same whatever
  that query would return, be it matching zones or a rejection.
\<close>

theorem free_shipping_threshold_short_circuits:
  assumes "getShippingConfig storage storeId = Inr (Some config)"
    and "freeShippingThreshold config = Some threshold"
    and "0 < threshold"
    and "threshold \<le> orderTotal"
  shows "calculateShipping (storage\<lparr>getShippingZones := zones\<rparr>) storeId zipCode orderTotal =
           Inr \<lparr>cost = 0, quote_estimatedDays = 7\<rparr> \<and>
         (slug \<noteq> [] \<and> zipCode \<noteq> [] \<and> getStoreBySlug storage slug = Inr (Some store) \<and>
          store_id store = storeId \<longrightarrow>
            shipping_calculate_route (storage\<lparr>getShippingZones := zones\<rparr>)
                (Some slug) (Some zipCode) (Some orderTotal) =
              ShippingOk \<lparr>body_shippingCost = 0, body_estimatedDays = 7, isFree = True\<rparr>)"
proof -
  have applies: "free_shipping_applies (Some config) orderTotal"
    using assms by (simp add: free_shipping_applies_iff)
  have quote: "calculateShipping (storage\<lparr>getShippingZones := zones\<rparr>) storeId zipCode orderTotal =
           Inr \<lparr>cost = 0, quote_estimatedDays = 7\<rparr>"
    using assms(1) applies by (simp add: calculateShipping_def await_def)
  then show ?thesis
    by (auto simp: shipping_calculate_route_def orderTotal_or_0_def shipping_body_def)
qed

theorem free_shipping_threshold_short_circuits_witness:
  "calculateShipping (shop_storage (Some 200) (Some 15) [zone_sp, zone_gsp]) ''store-1'' ''01310-100'' 100 =
     Inr \<lparr>cost = 10, quote_estimatedDays = 3\<rparr> \<and>
   calculateShipping (shop_storage (Some 200) (Some 15) [zone_sp, zone_gsp]) ''store-1'' ''01310-100'' 250 =
     Inr \<lparr>cost = 0, quote_estimatedDays = 7\<rparr> \<and>
   calculateShipping ((shop_storage (Some 200) (Some 15) [])\<lparr>getShippingZones := (\<lambda>storeId. Inl StorageError)\<rparr>)
       ''store-1'' ''01310-100'' 250 =
     Inr \<lparr>cost = 0, quote_estimatedDays = 7\<rparr> \<and>
   shipping_calculate_route (shop_storage (Some 200) (Some 15) [zone_sp, zone_gsp])
       (Some ''loja'') (Some ''01310-100'') (Some 250) =
     ShippingOk \<lparr>body_shippingCost = 0, body_estimatedDays = 7, isFree = True\<rparr>"
proof -
  let ?st = "shop_storage (Some 200) (Some 15) [zone_sp, zone_gsp]"
  let ?cfg = "\<lparr>config_storeId = ''store-1'', freeShippingThreshold = Some 200,
                defaultShippingCost = Some 15\<rparr>"
  have cfg: "getShippingConfig ?st ''store-1'' = Inr (Some ?cfg)"
    by (simp add: shop_storage_def empty_storage_def)
  have same: "?st\<lparr>getShippingZones := getShippingZones ?st\<rparr> = ?st"
    by simp
  have zoned: "calculateShipping ?st ''store-1'' ''01310-100'' 100 =
     Inr \<lparr>cost = 10, quote_estimatedDays = 3\<rparr>"
    by (simp add: calculateShipping_def await_def shop_storage_def empty_storage_def
        free_shipping_applies_def truthy_decimal_def strip_non_digits_def is_digit_def
        zone_contains_def zone_sp_def zone_gsp_def js_string_ge_def js_string_le_def
        estimatedDays_or_7_def)
  have rejecting: "(shop_storage (Some 200) (Some 15) [])\<lparr>getShippingZones := (\<lambda>storeId. Inl StorageError)\<rparr>
      = ?st\<lparr>getShippingZones := (\<lambda>storeId. Inl StorageError)\<rparr>"
    by (simp add: shop_storage_def)
  have store: "getStoreBySlug ?st ''loja'' = Inr (Some store_1)" "store_id store_1 = ''store-1''"
    by (simp_all add: shop_storage_def empty_storage_def store_1_def)
  note thm1 = free_shipping_threshold_short_circuits [OF cfg, of 200 250 "getShippingZones ?st"
      "''01310-100''" "''loja''" store_1, unfolded same]
  note thm2 = free_shipping_threshold_short_circuits [OF cfg, of 200 250 "\<lambda>storeId. Inl StorageError"
      "''01310-100''" "''loja''" store_1]
  show ?thesis
    using thm1 thm2 zoned store by (simp add: rejecting)
qed

lemma zone_contains_same_day: "zone_contains zone_same_day (strip_non_digits ''01310-100'')"
  by (simp add: zone_contains_def zone_same_day_def strip_non_digits_def is_digit_def
      js_string_ge_def js_string_le_def)

text \<open>
  The comparison is not numeric: a zone from \<open>"1"\<close> to \<open>"3"\<close> contains the zip \<open>"20"\<close>.
\<close>

lemma zone_range_is_not_numeric:
  "in_zone_range (zone_sp\<lparr>zipCodeStart := ''1'', zipCodeEnd := ''3''\<rparr>) ''20''"
  unfolding zone_contains_range [symmetric]
  by (simp add: zone_contains_def zone_sp_def strip_non_digits_def is_digit_def
      js_string_ge_def js_string_le_def)

text \<open>
  C2, as stated, fails on a matched zone whose \<open>estimatedDays\<close> is \<open>0\<close>: the claim's
  \<open>estimatedDays ?? 7\<close> keeps the \<open>0\<close>, the code's \<open>estimatedDays || 7\<close> answers 7.
\<close>

theorem matched_zone_days_counterexample:
  "in_zone_range zone_same_day (strip_non_digits ''01310-100'') \<and>
   estimatedDays zone_same_day = Some 0 \<and>
   calculateShipping (shop_storage None None [zone_same_day]) ''store-1'' ''01310-100'' 0 =
     Inr \<lparr>cost = 10, quote_estimatedDays = 7\<rparr> \<and>
   calculateShipping (shop_storage None None [zone_same_day]) ''store-1'' ''01310-100'' 0 \<noteq>
     Inr \<lparr>cost = shippingCost zone_same_day,
          quote_estimatedDays = nullish_or_7 (estimatedDays zone_same_day)\<rparr>"
proof -
  have "zone_loop [zone_same_day] (strip_non_digits ''01310-100'') =
          Some \<lparr>cost = 10, quote_estimatedDays = 7\<rparr>"
    using zone_contains_same_day by (simp add: zone_same_day_def estimatedDays_or_7_def)
  then have "calculateShipping (shop_storage None None [zone_same_day]) ''store-1'' ''01310-100'' 0 =
     Inr \<lparr>cost = 10, quote_estimatedDays = 7\<rparr>"
    by (simp add: calculateShipping_def await_def shop_storage_def empty_storage_def
        free_shipping_applies_def truthy_decimal_def)
  moreover have "in_zone_range zone_same_day (strip_non_digits ''01310-100'')"
    using zone_contains_same_day by (simp add: zone_contains_range)
  ultimately show ?thesis
    by (simp add: zone_same_day_def nullish_or_7_def)
qed

text \<open>
  C2, amended. When the free-shipping threshold does not apply, the quote is determined
  by the first zone, in the order the zone query returned them, whose digit-stripped
  bounds satisfy \<open>start \<le> zip \<le> end\<close> in the lexicographic order of strings: the cost
  is the zone's \<open>shippingCost\<close>, the days are the zone's \<open>estimatedDays\<close> when that is
  neither null nor zero and 7 otherwise, and the route reports \<open>isFree\<close> exactly when
  the cost is 0.
\<close>

theorem first_matching_zone_determines_quote:
  assumes "getShippingConfig storage storeId = Inr config"
    and "\<not> free_shipping_applies config orderTotal"
    and "getShippingZones storage storeId = Inr (before @ zone # after)"
    and "\<forall>z \<in> set before. \<not> in_zone_range z (strip_non_digits zipCode)"
    and "in_zone_range zone (strip_non_digits zipCode)"
  shows "calculateShipping storage storeId zipCode orderTotal =
           Inr \<lparr>cost = shippingCost zone,
                quote_estimatedDays =
                  (case estimatedDays zone of
                     None \<Rightarrow> 7
                   | Some n \<Rightarrow> if n = 0 then 7 else n)\<rparr> \<and>
         (slug \<noteq> [] \<and> zipCode \<noteq> [] \<and> getStoreBySlug storage slug = Inr (Some store) \<and>
          store_id store = storeId \<longrightarrow>
            shipping_calculate_route storage (Some slug) (Some zipCode) (Some orderTotal) =
              ShippingOk
                \<lparr>body_shippingCost = shippingCost zone,
                 body_estimatedDays =
                   (case estimatedDays zone of
                      None \<Rightarrow> 7
                    | Some n \<Rightarrow> if n = 0 then 7 else n),
                 isFree = (shippingCost zone = 0)\<rparr>)"
proof -
  have "zone_loop (before @ zone # after) (strip_non_digits zipCode) =
          Some \<lparr>cost = shippingCost zone,
                quote_estimatedDays = estimatedDays_or_7 (estimatedDays zone)\<rparr>"
    using assms(4,5) by (intro zone_loop_first_match) (simp_all add: zone_contains_range)
  then have quote: "calculateShipping storage storeId zipCode orderTotal =
           Inr \<lparr>cost = shippingCost zone,
                quote_estimatedDays = estimatedDays_or_7 (estimatedDays zone)\<rparr>"
    using assms(1,2,3) by (simp add: calculateShipping_def await_def)
  have days: "estimatedDays_or_7 (estimatedDays zone) =
      (case estimatedDays zone of None \<Rightarrow> 7 | Some n \<Rightarrow> if n = 0 then 7 else n)"
    by (simp add: estimatedDays_or_7_def)
  show ?thesis
    using quote unfolding days
    by (auto simp: shipping_calculate_route_def orderTotal_or_0_def shipping_body_def)
qed

theorem first_matching_zone_determines_quote_witness:
  "calculateShipping (shop_storage (Some 200) (Some 15) [zone_sp, zone_gsp]) ''store-1''
       ''01310100'' 100 =
     Inr \<lparr>cost = 10, quote_estimatedDays = 3\<rparr> \<and>
   shipping_calculate_route (shop_storage (Some 200) (Some 15) [zone_sp, zone_gsp])
       (Some ''loja'') (Some ''06454-000'') (Some 100) =
     ShippingOk \<lparr>body_shippingCost = 20, body_estimatedDays = 5, isFree = False\<rparr>"
proof -
  let ?st = "shop_storage (Some 200) (Some 15) [zone_sp, zone_gsp]"
  let ?cfg = "Some \<lparr>config_storeId = ''store-1'', freeShippingThreshold = Some 200,
                defaultShippingCost = Some 15\<rparr>"
  have cfg: "getShippingConfig ?st ''store-1'' = Inr ?cfg"
    by (simp add: shop_storage_def empty_storage_def)
  have below: "\<not> free_shipping_applies ?cfg 100"
    by (simp add: free_shipping_applies_def truthy_decimal_def)
  have zones1: "getShippingZones ?st ''store-1'' = Inr ([] @ zone_sp # [zone_gsp])"
    and zones2: "getShippingZones ?st ''store-1'' = Inr ([zone_sp] @ zone_gsp # [])"
    by (simp_all add: shop_storage_def empty_storage_def)
  have in1: "in_zone_range zone_sp (strip_non_digits ''01310100'')"
    and out2: "\<forall>z \<in> set [zone_sp]. \<not> in_zone_range z (strip_non_digits ''06454-000'')"
    and in2: "in_zone_range zone_gsp (strip_non_digits ''06454-000'')"
    unfolding zone_contains_range [symmetric]
    by (simp_all add: zone_contains_def zone_sp_def zone_gsp_def strip_non_digits_def
        is_digit_def js_string_ge_def js_string_le_def)
  have store: "getStoreBySlug ?st ''loja'' = Inr (Some store_1)" "store_id store_1 = ''store-1''"
    by (simp_all add: shop_storage_def empty_storage_def store_1_def)
  have none: "\<forall>z \<in> set []. \<not> in_zone_range z (strip_non_digits ''01310100'')"
    by simp
  note first = first_matching_zone_determines_quote [OF cfg below zones1 none in1,
      of "''loja''" store_1]
  note second = first_matching_zone_determines_quote [OF cfg below zones2 out2 in2,
      of "''loja''" store_1]
  show ?thesis
    using first second store by (simp add: zone_sp_def zone_gsp_def)
qed

text \<open>
  C3. When the threshold does not apply and no zone of the list (possibly empty) has a
  range containing the cleaned zip, \<open>calculateShipping\<close> resolves (it does not reject)
  to the configured default cost, or 0 where the store has no configuration or no
  default, and 7 days. With no configuration and no zones the quote is cost 0, 7 days.
\<close>

theorem no_matching_zone_falls_back_to_default:
  assumes "getShippingConfig storage storeId = Inr config"
    and "\<not> free_shipping_applies config orderTotal"
    and "getShippingZones storage storeId = Inr zones"
    and "\<forall>z \<in> set zones. \<not> in_zone_range z (strip_non_digits zipCode)"
  shows "calculateShipping storage storeId zipCode orderTotal =
           Inr \<lparr>cost =
                  (case config of
                     None \<Rightarrow> 0
                   | Some c \<Rightarrow> (case defaultShippingCost c of None \<Rightarrow> 0 | Some d \<Rightarrow> d)),
                quote_estimatedDays = 7\<rparr> \<and>
         (config = None \<and> zones = [] \<longrightarrow>
            calculateShipping storage storeId zipCode orderTotal =
              Inr \<lparr>cost = 0, quote_estimatedDays = 7\<rparr>)"
proof -
  have "zone_loop zones (strip_non_digits zipCode) = None"
    using assms(4) by (intro zone_loop_no_match) (simp add: zone_contains_range)
  then have "calculateShipping storage storeId zipCode orderTotal =
      Inr \<lparr>cost = defaultCost config, quote_estimatedDays = 7\<rparr>"
    using assms(1,2,3) by (simp add: calculateShipping_def await_def)
  then show ?thesis
    by (auto simp: defaultCost_def)
qed

theorem no_matching_zone_falls_back_to_default_witness:
  "calculateShipping (shop_storage (Some 200) (Some 15) [zone_sp, zone_gsp]) ''store-1''
       ''99999999'' 100 =
     Inr \<lparr>cost = 15, quote_estimatedDays = 7\<rparr> \<and>
   shipping_body \<lparr>cost = 15, quote_estimatedDays = 7\<rparr> =
     \<lparr>body_shippingCost = 15, body_estimatedDays = 7, isFree = False\<rparr> \<and>
   calculateShipping empty_storage ''store-1'' ''99999999'' 100 =
     Inr \<lparr>cost = 0, quote_estimatedDays = 7\<rparr>"
proof -
  let ?st = "shop_storage (Some 200) (Some 15) [zone_sp, zone_gsp]"
  let ?cfg = "Some \<lparr>config_storeId = ''store-1'', freeShippingThreshold = Some 200,
                defaultShippingCost = Some 15\<rparr>"
  have cfg: "getShippingConfig ?st ''store-1'' = Inr ?cfg"
    by (simp add: shop_storage_def empty_storage_def)
  have below: "\<not> free_shipping_applies ?cfg 100" "\<not> free_shipping_applies None 100"
    by (simp_all add: free_shipping_applies_def truthy_decimal_def)
  have zones: "getShippingZones ?st ''store-1'' = Inr [zone_sp, zone_gsp]"
    by (simp add: shop_storage_def empty_storage_def)
  have out: "\<forall>z \<in> set [zone_sp, zone_gsp]. \<not> in_zone_range z (strip_non_digits ''99999999'')"
    unfolding zone_contains_range [symmetric]
    by (simp add: zone_contains_def zone_sp_def zone_gsp_def strip_non_digits_def
        is_digit_def js_string_ge_def js_string_le_def)
  have bare: "getShippingConfig empty_storage ''store-1'' = Inr None"
    "getShippingZones empty_storage ''store-1'' = Inr []"
    "\<forall>z \<in> set []. \<not> in_zone_range z (strip_non_digits ''99999999'')"
    by (simp_all add: empty_storage_def)
  note configured = no_matching_zone_falls_back_to_default [OF cfg below(1) zones out]
  note unconfigured = no_matching_zone_falls_back_to_default [OF bare(1) below(2) bare(2) bare(3)]
  show ?thesis
    using configured unconfigured by (simp add: shipping_body_def)
qed

section \<open>Properties of the entitlement gate\<close>

lemma requireActiveSubscription_keeps_user:
  "requireActiveSubscription storage req = Next req1 \<Longrightarrow> claims_sub req1 = claims_sub req"
  by (auto simp: requireActiveSubscription_def split: option.splits sum.splits if_splits)

text \<open>
  C4. Let the subscription middleware have resolved a plan whose \<open>maxProducts\<close> is a
  number L, and let the merchant's store hold C products. If C \<ge> L the gate answers 403
  with the payload \<open>{message, limit = L, current = C, upgradeRequired = true, redirectTo}\<close>
  and the route ends there: the guarded handler does not run and the state is unchanged.
  If C < L the gate calls \<open>next()\<close> with the request as it received it, and the route's
  result is the handler's, run on the unchanged state.
\<close>

theorem product_limit_gate_denies_at_limit:
  assumes "requireActiveSubscription (storage s) req = Next req1"
    and "optional_plan (req_subscription req1) = Some pl"
    and "maxProducts pl = Some L"
    and "getStoreByUserId (storage s) (claims_sub req1) = Inr (Some store)"
    and "getProductsByStoreId (storage s) (store_id store) = Inr currentProducts"
  shows "(L \<le> int (length currentProducts) \<longrightarrow>
            checkProductLimit (storage s) req1 =
              Responded (Reply 403 (LimitExceeded
                \<lparr>message = ProductLimitReached L (plan_name pl),
                 limit = L,
                 current = length currentProducts,
                 upgradeRequired = True,
                 redirectTo = ''/dashboard/subscription''\<rparr>)) \<and>
            post_products storage handler s req =
              (s, FromMiddleware (Reply 403 (LimitExceeded
                \<lparr>message = ProductLimitReached L (plan_name pl),
                 limit = L,
                 current = length currentProducts,
                 upgradeRequired = True,
                 redirectTo = ''/dashboard/subscription''\<rparr>)))) \<and>
         (int (length currentProducts) < L \<longrightarrow>
            checkProductLimit (storage s) req1 = Next req1 \<and>
            post_products storage handler s req =
              (case handler s req1 of (s', r) \<Rightarrow> (s', FromHandler r)))"
  using assms by (simp add: checkProductLimit_def post_products_def)

theorem product_limit_gate_denies_at_limit_witness:
  "post_products (catalogue_storage (Some fallback_gratis)) create_product
       [sample_product, sample_product, sample_product, sample_product, sample_product]
       request_user_1 =
     ([sample_product, sample_product, sample_product, sample_product, sample_product],
      FromMiddleware (Reply 403 (LimitExceeded
        \<lparr>message = ProductLimitReached 5 (plan_name fallback_gratis),
         limit = 5,
         current = 5,
         upgradeRequired = True,
         redirectTo = ''/dashboard/subscription''\<rparr>))) \<and>
   post_products (catalogue_storage (Some fallback_gratis)) create_product
       [sample_product, sample_product, sample_product, sample_product]
       request_user_1 =
     ([sample_product, sample_product, sample_product, sample_product, sample_product],
      FromHandler ''created'')"
proof -
  let ?five = "[sample_product, sample_product, sample_product, sample_product, sample_product]"
  let ?four = "[sample_product, sample_product, sample_product, sample_product]"
  let ?req1 = "request_user_1\<lparr>req_subscription := Some (Synthesized (Some fallback_gratis))\<rparr>"
  have resolved: "requireActiveSubscription (catalogue_storage (Some fallback_gratis) t) request_user_1 =
      Next ?req1" for t
    by (simp add: requireActiveSubscription_def catalogue_storage_def empty_storage_def
        request_user_1_def)
  have pl: "optional_plan (req_subscription ?req1) = Some fallback_gratis"
    "maxProducts fallback_gratis = Some 5"
    by (simp_all add: optional_plan_def fallback_gratis_def)
  have store: "getStoreByUserId (catalogue_storage (Some fallback_gratis) t) (claims_sub ?req1) =
      Inr (Some store_1)" for t
    by (simp add: catalogue_storage_def empty_storage_def request_user_1_def)
  have products: "getProductsByStoreId (catalogue_storage (Some fallback_gratis) t) (store_id store_1) =
      Inr (filter (\<lambda>p. product_storeId p = ''store-1'') t)" for t
    by (simp add: catalogue_storage_def empty_storage_def store_1_def)
  have count: "filter (\<lambda>p. product_storeId p = ''store-1'') ?five = ?five"
    "filter (\<lambda>p. product_storeId p = ''store-1'') ?four = ?four"
    by (simp_all add: sample_product_def)
  note at_limit = product_limit_gate_denies_at_limit
      [of "catalogue_storage (Some fallback_gratis)", OF resolved pl store products,
        of ?five create_product]
  note below = product_limit_gate_denies_at_limit
      [of "catalogue_storage (Some fallback_gratis)", OF resolved pl store products,
        of ?four create_product]
  show ?thesis
    using at_limit below unfolding count by (simp add: create_product_def)
qed

text \<open>
  C9. When the request carries no plan object, the product-limit gate makes no
  comparison: for a merchant with a store it calls \<open>next()\<close> whatever the product query
  would return, any number of products or a rejection. That is the situation of a user
  without a subscription when no plan has the slug \<open>gratis\<close>: the subscription
  middleware attaches \<open>{status: "active", plan: undefined, isFree: true}\<close> and the route
  reaches the handler.
\<close>

theorem missing_plan_allows_every_creation:
  assumes "getStoreByUserId (storage s) (claims_sub req) = Inr (Some store)"
  shows "(optional_plan (req_subscription req) = None \<longrightarrow>
            checkProductLimit ((storage s)\<lparr>getProductsByStoreId := productQuery\<rparr>) req =
              Next req) \<and>
         (claims_sub req = Some userId \<and> userId \<noteq> [] \<and>
          getSubscriptionByUserId (storage s) userId = Inr None \<and>
          getPlanBySlug (storage s) ''gratis'' = Inr None \<longrightarrow>
            post_products storage handler s req =
              (case handler s (req\<lparr>req_subscription := Some (Synthesized None)\<rparr>) of
                 (s', r) \<Rightarrow> (s', FromHandler r)))"
  using assms
  by (auto simp: checkProductLimit_def post_products_def requireActiveSubscription_def
      optional_plan_def)

theorem missing_plan_allows_every_creation_witness:
  "checkProductLimit
     ((catalogue_storage None [])\<lparr>getProductsByStoreId := (\<lambda>storeId. Inl StorageError)\<rparr>)
     request_user_1 = Next request_user_1 \<and>
   post_products (catalogue_storage None) create_product
       [sample_product, sample_product, sample_product, sample_product, sample_product,
        sample_product, sample_product]
       request_user_1 =
     ([sample_product, sample_product, sample_product, sample_product, sample_product,
        sample_product, sample_product, sample_product],
      FromHandler ''created'')"
proof -
  let ?seven = "[sample_product, sample_product, sample_product, sample_product,
    sample_product, sample_product, sample_product]"
  have store: "getStoreByUserId (catalogue_storage None t) (claims_sub request_user_1) =
      Inr (Some store_1)" for t
    by (simp add: catalogue_storage_def empty_storage_def request_user_1_def)
  have facts: "optional_plan (req_subscription request_user_1) = None"
    "claims_sub request_user_1 = Some ''user-1''"
    "getSubscriptionByUserId (catalogue_storage None t) ''user-1'' = Inr None"
    "getPlanBySlug (catalogue_storage None t) ''gratis'' = Inr None" for t
    by (simp_all add: catalogue_storage_def empty_storage_def request_user_1_def
        optional_plan_def)
  note gate = missing_plan_allows_every_creation
      [of "catalogue_storage None" "[]", OF store, of "\<lambda>storeId. Inl StorageError" "''user-1''"
        create_product]
  note route = missing_plan_allows_every_creation
      [of "catalogue_storage None" ?seven, OF store, of _ "''user-1''" create_product]
  show ?thesis
    using gate route by (simp add: facts create_product_def)
qed

section \<open>Properties of the subscription resolver\<close>

lemma sorts_before_irrefl: "\<not> sorts_before a a"
  by (simp add: sorts_before_def split: option.splits)

lemma sorts_before_asym: "sorts_before a b \<Longrightarrow> \<not> sorts_before b a"
  by (auto simp: sorts_before_def split: option.splits)

lemma sorts_before_neg_trans: "sorts_before a b \<Longrightarrow> \<not> sorts_before c b \<Longrightarrow> sorts_before a c"
  by (auto simp: sorts_before_def split: option.splits)

lemma order_desc_limit_1_None: "order_desc_limit_1 rows = None \<longleftrightarrow> rows = []"
  by (cases rows) (auto split: option.splits)

lemma order_desc_limit_1_first:
  "order_desc_limit_1 rows = Some row \<Longrightarrow>
     row \<in> set rows \<and> (\<forall>r \<in> set rows. \<not> sorts_before (sub_createdAt r) (sub_createdAt row))"
proof (induction rows arbitrary: row)
  case Nil
  then show ?case by simp
next
  case (Cons x rs)
  show ?case
  proof (cases "order_desc_limit_1 rs")
    case None
    then have "rs = []" by (simp add: order_desc_limit_1_None)
    with Cons.prems show ?thesis by (simp add: sorts_before_irrefl)
  next
    case (Some r')
    from Cons.IH [OF Some] have r': "r' \<in> set rs"
      and best: "\<forall>r \<in> set rs. \<not> sorts_before (sub_createdAt r) (sub_createdAt r')"
      by simp_all
    show ?thesis
    proof (cases "sorts_before (sub_createdAt r') (sub_createdAt x)")
      case True
      with Some Cons.prems have "row = r'" by simp
      with True r' best show ?thesis by (auto dest: sorts_before_asym)
    next
      case False
      with Some Cons.prems have "row = x" by simp
      with False best show ?thesis
        by (auto simp: sorts_before_irrefl dest: sorts_before_neg_trans)
    qed
  qed
qed

lemma order_desc_limit_1_most_recent:
  assumes "order_desc_limit_1 rows = Some row"
    and "\<forall>r \<in> set rows. sub_createdAt r \<noteq> None"
  shows "most_recent row rows"
proof -
  from order_desc_limit_1_first [OF assms(1)]
  have mem: "row \<in> set rows"
    and best: "\<And>r. r \<in> set rows \<Longrightarrow> \<not> sorts_before (sub_createdAt r) (sub_createdAt row)"
    by simp_all
  from mem assms(2) obtain t where t: "sub_createdAt row = Some t"
    by auto
  have "\<exists>t'. sub_createdAt r = Some t' \<and> t' \<le> t" if "r \<in> set rows" for r
  proof -
    from that assms(2) obtain t' where "sub_createdAt r = Some t'"
      by auto
    with best [OF that] t show ?thesis
      by (simp add: sorts_before_def)
  qed
  then show ?thesis
    unfolding most_recent_def using mem t
    by (fastforce split: option.splits)
qed

lemma find_by_key:
  "distinct (map key rows) \<Longrightarrow> p \<in> set rows \<Longrightarrow> find (\<lambda>q. key q = key p) rows = Some p"
  by (induction rows) (auto simp: image_iff)

lemma with_plan_verbatim:
  "Subscription.truncate (with_plan s p) = s" "plan (with_plan s p) = p"
  "sub_status (with_plan s p) = sub_status s"
  by (simp_all add: with_plan_def Subscription.truncate_def)

lemma reads_tables_subscription:
  "reads_tables storage subscriptions plans \<Longrightarrow>
     getSubscriptionByUserId storage userId =
       Inr (DatabaseStorage_getSubscriptionByUserId subscriptions plans userId)"
  by (simp add: reads_tables_def)

lemma reads_tables_plan:
  "reads_tables storage subscriptions plans \<Longrightarrow>
     getPlanBySlug storage slug = Inr (DatabaseStorage_getPlanBySlug plans slug)"
  by (simp add: reads_tables_def)

lemma reads_tables_table_storage: "reads_tables (table_storage subscriptions plans) subscriptions plans"
  by (simp add: reads_tables_def table_storage_def empty_storage_def)

lemma getPlanBySlug_gratis:
  "DatabaseStorage_getPlanBySlug plans slug = Some p \<Longrightarrow> p \<in> set plans \<and> plan_slug p = slug"
  by (auto simp: DatabaseStorage_getPlanBySlug_def find_Some_iff)

lemma order_desc_limit_1_exists:
  "rows \<noteq> [] \<Longrightarrow> \<exists>row. order_desc_limit_1 rows = Some row"
  using order_desc_limit_1_None [of rows] by (cases "order_desc_limit_1 rows") simp_all

lemma query_no_rows:
  "\<forall>s \<in> set subscriptions. sub_userId s \<noteq> userId \<Longrightarrow>
     DatabaseStorage_getSubscriptionByUserId subscriptions plans userId = None"
proof -
  assume "\<forall>s \<in> set subscriptions. sub_userId s \<noteq> userId"
  then have "filter (\<lambda>s. sub_userId s = userId) subscriptions = []"
    by (simp add: filter_empty_conv)
  then show ?thesis
    by (simp add: DatabaseStorage_getSubscriptionByUserId_def)
qed

text \<open>
  C5. For a user without subscription rows the resolver answers with the synthesized
  object \<open>{status: "active", plan, isFree: true}\<close> whose plan is the plan of slug
  \<open>gratis\<close>. For a user with rows it answers with one of the user's rows, all columns
  as stored and whatever its status, joined with the plan the row refers to; that row is
  the most recently created one. The tables are those the schema admits: \<open>plans.id\<close> is
  a key and every \<open>subscriptions.plan_id\<close> refers to a plan. The creation times are those
  the application writes: both inserts of a subscription leave \<open>created_at\<close> to its
  default, the time of the insert.
\<close>

theorem subscription_resolver_answers_newest_row:
  assumes "reads_tables storage subscriptions plans"
    and "plan_keys subscriptions plans"
  shows "((\<forall>s \<in> set subscriptions. sub_userId s \<noteq> userId) \<longrightarrow>
            get_subscription_route storage userId =
              SubscriptionOk (Synthesized (DatabaseStorage_getPlanBySlug plans ''gratis'')) \<and>
            view_status (Synthesized (DatabaseStorage_getPlanBySlug plans ''gratis'')) = ''active'' \<and>
            view_isFree (Synthesized (DatabaseStorage_getPlanBySlug plans ''gratis'')) = Some True) \<and>
         (DatabaseStorage_getPlanBySlug plans ''gratis'' = Some free \<longrightarrow>
            free \<in> set plans \<and> plan_slug free = ''gratis'') \<and>
         ((\<exists>s \<in> set subscriptions. sub_userId s = userId) \<longrightarrow>
            (\<exists>row p.
               row \<in> set subscriptions \<and> sub_userId row = userId \<and>
               p \<in> set plans \<and> plan_id p = planId row \<and>
               get_subscription_route storage userId = SubscriptionOk (Stored (with_plan row p)) \<and>
               Subscription.truncate (with_plan row p) = row \<and>
               plan (with_plan row p) = p \<and>
               view_status (Stored (with_plan row p)) = sub_status row \<and>
               ((\<forall>s \<in> set subscriptions. sub_userId s = userId \<longrightarrow> sub_createdAt s \<noteq> None) \<longrightarrow>
                  most_recent row (filter (\<lambda>s. sub_userId s = userId) subscriptions))))"
proof -
  let ?rows = "filter (\<lambda>s. sub_userId s = userId) subscriptions"
  note sub = reads_tables_subscription [OF assms(1), of userId]
  note free = reads_tables_plan [OF assms(1), of "''gratis''"]
  have none: "(\<forall>s \<in> set subscriptions. sub_userId s \<noteq> userId) \<longrightarrow>
      get_subscription_route storage userId =
        SubscriptionOk (Synthesized (DatabaseStorage_getPlanBySlug plans ''gratis''))"
    using sub free by (simp add: get_subscription_route_def query_no_rows)
  have slug: "DatabaseStorage_getPlanBySlug plans ''gratis'' = Some free \<longrightarrow>
      free \<in> set plans \<and> plan_slug free = ''gratis''"
    using getPlanBySlug_gratis by blast
  have some: "\<exists>row p.
      row \<in> set subscriptions \<and> sub_userId row = userId \<and>
      p \<in> set plans \<and> plan_id p = planId row \<and>
      get_subscription_route storage userId = SubscriptionOk (Stored (with_plan row p)) \<and>
      ((\<forall>s \<in> set subscriptions. sub_userId s = userId \<longrightarrow> sub_createdAt s \<noteq> None) \<longrightarrow>
         most_recent row ?rows)"
    if "\<exists>s \<in> set subscriptions. sub_userId s = userId"
  proof -
    from that have "?rows \<noteq> []"
      by (simp add: filter_empty_conv)
    then obtain row where pick: "order_desc_limit_1 ?rows = Some row"
      using order_desc_limit_1_exists by blast
    from order_desc_limit_1_first [OF pick] have row: "row \<in> set subscriptions" "sub_userId row = userId"
      by simp_all
    from assms(2) row(1) obtain p where p: "p \<in> set plans" "plan_id p = planId row"
      unfolding plan_keys_def by blast
    from assms(2) p have "find (\<lambda>q. plan_id q = plan_id p) plans = Some p"
      unfolding plan_keys_def by (intro find_by_key) simp_all
    then have "find (\<lambda>q. plan_id q = planId row) plans = Some p"
      by (simp add: p(2))
    then have "DatabaseStorage_getSubscriptionByUserId subscriptions plans userId =
        Some (with_plan row p)"
      using pick by (simp add: DatabaseStorage_getSubscriptionByUserId_def)
    then have route: "get_subscription_route storage userId =
        SubscriptionOk (Stored (with_plan row p))"
      using sub by (simp add: get_subscription_route_def)
    have "most_recent row ?rows"
      if "\<forall>s \<in> set subscriptions. sub_userId s = userId \<longrightarrow> sub_createdAt s \<noteq> None"
      using pick that by (intro order_desc_limit_1_most_recent) simp_all
    with row p route show ?thesis
      by blast
  qed
  show ?thesis
    using none slug some by (simp add: with_plan_verbatim)
qed

theorem subscription_resolver_answers_newest_row_witness:
  "get_subscription_route (table_storage [older_row, newer_row] fallbackPlans) ''user-2'' =
     SubscriptionOk (Synthesized (Some fallback_gratis)) \<and>
   get_subscription_route (table_storage [older_row, newer_row] fallbackPlans) ''user-1'' =
     SubscriptionOk (Stored (with_plan newer_row fallback_profissional)) \<and>
   most_recent newer_row [older_row, newer_row] \<and>
   view_status (Stored (with_plan newer_row fallback_profissional)) = ''canceled''"
proof -
  let ?st = "table_storage [older_row, newer_row] fallbackPlans"
  have ids: "plan_id fallback_gratis = ''gratis''" "plan_id fallback_basico = ''basico''"
    "plan_id fallback_profissional = ''profissional''" "plan_id fallback_enterprise = ''enterprise''"
    "plan_slug fallback_gratis = ''gratis''"
    by (simp_all add: fallback_gratis_def fallback_basico_def fallback_profissional_def
        fallback_enterprise_def)
  have free: "DatabaseStorage_getPlanBySlug fallbackPlans ''gratis'' = Some fallback_gratis"
    by (simp add: DatabaseStorage_getPlanBySlug_def fallbackPlans_def ids)
  have rows: "sub_userId older_row = ''user-1''" "sub_userId newer_row = ''user-1''"
    "planId older_row = ''basico''" "planId newer_row = ''profissional''"
    "sub_status newer_row = ''canceled''"
    "sub_createdAt older_row = Some 1000" "sub_createdAt newer_row = Some 2000"
    by (simp_all add: older_row_def newer_row_def)
  have keys: "plan_keys [older_row, newer_row] fallbackPlans"
    by (simp add: plan_keys_def fallbackPlans_def ids rows)
  have absent: "\<forall>s \<in> set [older_row, newer_row]. sub_userId s \<noteq> ''user-2''"
    and present: "\<exists>s \<in> set [older_row, newer_row]. sub_userId s = ''user-1''"
    and dated: "\<forall>s \<in> set [older_row, newer_row].
      sub_userId s = ''user-1'' \<longrightarrow> sub_createdAt s \<noteq> None"
    and filtered: "filter (\<lambda>s. sub_userId s = ''user-1'') [older_row, newer_row] =
      [older_row, newer_row]"
    by (simp_all add: rows)
  note nobody = subscription_resolver_answers_newest_row
      [OF reads_tables_table_storage keys, where userId = "''user-2''" and free = fallback_gratis]
  note somebody = subscription_resolver_answers_newest_row
      [OF reads_tables_table_storage keys, where userId = "''user-1''" and free = fallback_gratis]
  from nobody absent free
  have a: "get_subscription_route ?st ''user-2'' = SubscriptionOk (Synthesized (Some fallback_gratis))"
    by simp
  from somebody present dated obtain row p where found:
    "p \<in> set fallbackPlans" "plan_id p = planId row"
    "get_subscription_route ?st ''user-1'' = SubscriptionOk (Stored (with_plan row p))"
    "view_status (Stored (with_plan row p)) = sub_status row"
    "most_recent row [older_row, newer_row]"
    unfolding filtered by blast
  from found(5) have row: "row = newer_row"
    by (auto simp: most_recent_def rows)
  with found(1,2) have p: "p = fallback_profissional"
    by (auto simp: fallbackPlans_def ids rows)
  show ?thesis
    using a found(3,4,5) unfolding row p by (simp add: rows)
qed

lemma without_rows_of_reads:
  "getSubscriptionByUserId (without_rows_of userId storage subscriptions plans) userId = Inr None"
  "getPlanBySlug (without_rows_of userId storage subscriptions plans) = getPlanBySlug storage"
  "getStoreByUserId (without_rows_of userId storage subscriptions plans) = getStoreByUserId storage"
  "getProductsByStoreId (without_rows_of userId storage subscriptions plans) =
     getProductsByStoreId storage"
  "getOrdersByStoreId (without_rows_of userId storage subscriptions plans) =
     getOrdersByStoreId storage"
  by (simp_all add: without_rows_of_def query_no_rows)

text \<open>
  C10. When the newest subscription row of a user refers to a plan that is not in the
  plans table, \<open>getSubscriptionByUserId\<close> returns nothing. Each caller then behaves
  exactly as on a database without any row for that user: the subscription route and
  the subscription middleware answer with the synthesized object (status \<open>active\<close>, the
  plan of slug \<open>gratis\<close>), whatever the status and plan reference of the stored row, and
  \<open>getPlanUsage\<close> reports against the plan of slug \<open>gratis\<close>.
\<close>

theorem subscription_without_plan_is_no_subscription:
  assumes "reads_tables storage subscriptions plans"
    and "order_desc_limit_1 (filter (\<lambda>s. sub_userId s = userId) subscriptions) = Some row"
    and "\<forall>p \<in> set plans. plan_id p \<noteq> planId row"
  shows "DatabaseStorage_getSubscriptionByUserId subscriptions plans userId = None \<and>
         get_subscription_route storage userId =
           SubscriptionOk (Synthesized (DatabaseStorage_getPlanBySlug plans ''gratis'')) \<and>
         get_subscription_route storage userId =
           get_subscription_route (without_rows_of userId storage subscriptions plans) userId \<and>
         (claims_sub req = Some userId \<and> userId \<noteq> [] \<longrightarrow>
            requireActiveSubscription storage req =
              Next (req\<lparr>req_subscription :=
                Some (Synthesized (DatabaseStorage_getPlanBySlug plans ''gratis''))\<rparr>) \<and>
            requireActiveSubscription storage req =
              requireActiveSubscription (without_rows_of userId storage subscriptions plans) req) \<and>
         getPlanUsage storage date now userId =
           getPlanUsage (without_rows_of userId storage subscriptions plans) date now userId"
proof -
  have "find (\<lambda>p. plan_id p = planId row) plans = None"
    using assms(3) by (simp add: find_None_iff)
  then have query: "DatabaseStorage_getSubscriptionByUserId subscriptions plans userId = None"
    using assms(2) by (simp add: DatabaseStorage_getSubscriptionByUserId_def)
  then have sub: "getSubscriptionByUserId storage userId = Inr None"
    using reads_tables_subscription [OF assms(1), of userId] by simp
  note free = reads_tables_plan [OF assms(1), of "''gratis''"]
  have route: "get_subscription_route storage userId =
      SubscriptionOk (Synthesized (DatabaseStorage_getPlanBySlug plans ''gratis''))"
    using sub free by (simp add: get_subscription_route_def)
  have route': "get_subscription_route (without_rows_of userId storage subscriptions plans) userId =
      SubscriptionOk (Synthesized (DatabaseStorage_getPlanBySlug plans ''gratis''))"
    using free by (simp add: get_subscription_route_def without_rows_of_reads)
  have gate: "requireActiveSubscription storage req =
      Next (req\<lparr>req_subscription :=
        Some (Synthesized (DatabaseStorage_getPlanBySlug plans ''gratis''))\<rparr>)"
    and gate': "requireActiveSubscription (without_rows_of userId storage subscriptions plans) req =
      Next (req\<lparr>req_subscription :=
        Some (Synthesized (DatabaseStorage_getPlanBySlug plans ''gratis''))\<rparr>)"
    if "claims_sub req = Some userId" "userId \<noteq> []"
    using that sub free
    by (simp_all add: requireActiveSubscription_def without_rows_of_reads)
  have usage: "getPlanUsage storage date now userId =
      getPlanUsage (without_rows_of userId storage subscriptions plans) date now userId"
    using sub
    by (simp add: getPlanUsage_def await_or_null_def without_rows_of_reads
        split: sum.splits option.splits)
  show ?thesis
    using query route route' gate gate' usage by simp
qed

theorem subscription_without_plan_is_no_subscription_witness:
  "sub_status orphan_row = ''past_due'' \<and>
   DatabaseStorage_getSubscriptionByUserId [older_row, orphan_row] fallbackPlans ''user-1'' = None \<and>
   requireActiveSubscription (table_storage [older_row, orphan_row] fallbackPlans) request_user_1 =
     Next (request_user_1\<lparr>req_subscription := Some (Synthesized (Some fallback_gratis))\<rparr>) \<and>
   get_subscription_route (table_storage [older_row, orphan_row] fallbackPlans) ''user-1'' =
     SubscriptionOk (Synthesized (Some fallback_gratis))"
proof -
  have ids: "plan_id fallback_gratis = ''gratis''" "plan_id fallback_basico = ''basico''"
    "plan_id fallback_profissional = ''profissional''" "plan_id fallback_enterprise = ''enterprise''"
    "plan_slug fallback_gratis = ''gratis''"
    by (simp_all add: fallback_gratis_def fallback_basico_def fallback_profissional_def
        fallback_enterprise_def)
  have free: "DatabaseStorage_getPlanBySlug fallbackPlans ''gratis'' = Some fallback_gratis"
    by (simp add: DatabaseStorage_getPlanBySlug_def fallbackPlans_def ids)
  have pick: "order_desc_limit_1 (filter (\<lambda>s. sub_userId s = ''user-1'') [older_row, orphan_row]) =
      Some orphan_row"
    by (simp add: older_row_def orphan_row_def sorts_before_def)
  have missing: "\<forall>p \<in> set fallbackPlans. plan_id p \<noteq> planId orphan_row"
    by (simp add: fallbackPlans_def ids orphan_row_def)
  have req: "claims_sub request_user_1 = Some ''user-1''" "sub_status orphan_row = ''past_due''"
    by (simp_all add: request_user_1_def orphan_row_def)
  note orphan = subscription_without_plan_is_no_subscription
      [OF reads_tables_table_storage pick missing, where req = request_user_1]
  show ?thesis
    using orphan req free by simp
qed

section \<open>Rounding to doubles\<close>

text \<open>
  The exponent of a positive number is the right one, rounding to the nearest integer
  errs by at most a half, and so rounding to a double errs by at most \<open>2 ^ -53\<close> of the
  value; integers below \<open>2 ^ 53\<close> are doubles. A percentage, rounded twice, is within
  \<open>2 ^ -51\<close> of the exact \<open>x * 100\<close>.
\<close>

lemma pow2_pos: "0 < pow2 k"
  by (simp add: pow2_def)

lemma pow2_add: "pow2 (a + b) = pow2 a * pow2 b"
proof -
  have "pow2 k = 2 powi k" for k
    by (simp add: pow2_def power_int_def power_divide)
  then show ?thesis
    by (simp add: power_int_add)
qed

lemma pow2_nat: "0 \<le> k \<Longrightarrow> pow2 k = 2 ^ nat k"
  by (simp add: pow2_def)

lemma pow2_neg: "k \<le> 0 \<Longrightarrow> pow2 k = 1 / 2 ^ nat (- k)"
  by (auto simp: pow2_def)

lemma binary_exponent_bounds:
  assumes "0 < q"
  shows "pow2 (binary_exponent q) \<le> q \<and> q < pow2 (binary_exponent q + 1)"
proof (cases "1 \<le> q")
  case True
  define n where "n = \<lfloor>q\<rfloor>"
  have n: "0 < n" using True by (simp add: n_def)
  from bitlen_bounds [OF n] have lo: "2 ^ nat (bitlen n - 1) \<le> n" and hi: "n < 2 ^ nat (bitlen n)"
    by simp_all
  have b1: "1 \<le> bitlen n" using n by (auto simp: bitlen_alt_def)
  have e: "binary_exponent q = bitlen n - 1" using True by (simp add: binary_exponent_def n_def)
  have "(2::rat) ^ nat (bitlen n - 1) \<le> of_int n"
    using lo by (metis of_int_le_iff of_int_numeral of_int_power)
  also have "\<dots> \<le> q" by (simp add: n_def)
  finally have low: "pow2 (binary_exponent q) \<le> q"
    using b1 by (simp add: e pow2_nat)
  have "n + 1 \<le> 2 ^ nat (bitlen n)" using hi by simp
  then have "(of_int (n + 1) :: rat) \<le> 2 ^ nat (bitlen n)"
    by (metis of_int_le_iff of_int_numeral of_int_power)
  moreover have "q < of_int (n + 1)" unfolding n_def by linarith
  ultimately have "q < 2 ^ nat (bitlen n)" by simp
  then have "q < pow2 (binary_exponent q + 1)"
    using b1 by (simp add: e pow2_nat)
  with low show ?thesis by simp
next
  case False
  define m where "m = \<lceil>1 / q\<rceil>"
  define k where "k = bitlen (m - 1)"
  have r: "1 < 1 / q" using assms False by simp
  then have m2: "2 \<le> m" unfolding m_def by linarith
  then have m1: "0 < m - 1" by simp
  from bitlen_bounds [OF m1] have lo: "2 ^ nat (k - 1) \<le> m - 1" and hi: "m - 1 < 2 ^ nat k"
    by (simp_all add: k_def)
  have k1: "1 \<le> k" using m1 by (auto simp: k_def bitlen_alt_def)
  have e: "binary_exponent q = - k" using False by (simp add: binary_exponent_def m_def k_def)
  have "m \<le> 2 ^ nat k" using hi by simp
  then have "(of_int m :: rat) \<le> 2 ^ nat k"
    by (metis of_int_le_iff of_int_numeral of_int_power)
  moreover have "1 / q \<le> of_int m" unfolding m_def by linarith
  ultimately have "1 / q \<le> 2 ^ nat k" by (rule order_trans [rotated])
  then have "1 / 2 ^ nat k \<le> q"
    using assms by (simp add: field_simps)
  then have low: "pow2 (binary_exponent q) \<le> q"
    using k1 by (simp add: e pow2_neg)
  have "(2::rat) ^ nat (k - 1) \<le> of_int (m - 1)"
    using lo by (metis of_int_le_iff of_int_numeral of_int_power)
  moreover have "of_int (m - 1) < 1 / q" unfolding m_def by linarith
  ultimately have "2 ^ nat (k - 1) < 1 / q" by simp
  then have "q < 1 / 2 ^ nat (k - 1)"
    using assms by (simp add: field_simps)
  moreover have "nat (- (1 - k)) = nat (k - 1)" by simp
  ultimately have "q < pow2 (binary_exponent q + 1)"
    using k1 by (simp add: e pow2_neg)
  with low show ?thesis by simp
qed

lemma round_half_even_error: "\<bar>of_int (round_half_even x) - x\<bar> \<le> 1 / 2"
proof -
  have "of_int \<lfloor>x\<rfloor> \<le> x" "x < of_int \<lfloor>x\<rfloor> + 1" by linarith+
  then show ?thesis
    by (auto simp: round_half_even_def Let_def)
qed

lemma to_double_error: "\<bar>to_double q - q\<bar> \<le> \<bar>q\<bar> / 2 ^ 53"
proof (cases "q = 0")
  case True
  then show ?thesis by (simp add: to_double_def)
next
  case False
  define a where "a = \<bar>q\<bar>"
  define ulp where "ulp = pow2 (binary_exponent a - 52)"
  have a: "0 < a" using False by (simp add: a_def)
  have ulp: "0 < ulp" by (simp add: ulp_def pow2_pos)
  have "pow2 (binary_exponent a) = ulp * 2 ^ 52"
    using pow2_add [of "binary_exponent a - 52" 52] by (simp add: ulp_def pow2_def)
  with binary_exponent_bounds [OF a] have big: "ulp * 2 ^ 52 \<le> a" by simp
  define r where "r = round_half_even (a / ulp)"
  have "\<bar>of_int r - a / ulp\<bar> \<le> 1 / 2"
    unfolding r_def by (rule round_half_even_error)
  then have "\<bar>of_int r - a / ulp\<bar> * ulp \<le> 1 / 2 * ulp"
    using ulp by (simp add: mult_right_mono)
  moreover have "\<bar>of_int r - a / ulp\<bar> * ulp = \<bar>of_int r * ulp - a\<bar>"
    using ulp by (simp add: abs_mult [symmetric] field_simps del: abs_mult)
  ultimately have err: "\<bar>of_int r * ulp - a\<bar> \<le> ulp / 2" by simp
  have "ulp / 2 \<le> a / 2 ^ 53" using big by (simp add: field_simps)
  with err have bound: "\<bar>of_int r * ulp - a\<bar> \<le> a / 2 ^ 53" by simp
  have td: "to_double q = sgn q * (of_int r * ulp)"
    using False by (simp add: to_double_def Let_def r_def ulp_def a_def)
  have "to_double q - q = sgn q * (of_int r * ulp - a)"
    unfolding td a_def by (simp add: algebra_simps abs_sgn mult.commute)
  then have "\<bar>to_double q - q\<bar> = \<bar>of_int r * ulp - a\<bar>"
    using False by (simp add: abs_mult abs_sgn_eq)
  with bound show ?thesis by (simp add: a_def)
qed


lemma round_half_even_of_int: "round_half_even (of_int k) = k"
  by (simp add: round_half_even_def)

lemma pow2_powi: "pow2 k = 2 powi k"
  by (simp add: pow2_def power_int_def power_divide)

lemma to_double_of_int:
  assumes "\<bar>n\<bar> < 2 ^ 53"
  shows "to_double (of_int n) = of_int n"
proof (cases "n = 0")
  case True
  then show ?thesis by (simp add: to_double_def)
next
  case False
  define a :: rat where "a = \<bar>of_int n\<bar>"
  define e where "e = binary_exponent a"
  have a: "0 < a" using False by (simp add: a_def)
  have "a < 2 ^ 53"
    using assms unfolding a_def
    by (metis of_int_abs of_int_less_iff of_int_numeral of_int_power)
  with binary_exponent_bounds [OF a] have "pow2 e < pow2 53"
    by (simp add: e_def pow2_def)
  then have "2 powi e < (2::rat) powi 53"
    by (simp only: pow2_powi)
  then have "e < 53"
    by (rule power_int_le_imp_less_exp [rotated]) simp_all
  then have e: "e \<le> 52"
    by simp
  have ulp: "pow2 (e - 52) = 1 / 2 ^ nat (52 - e)"
    using e by (simp add: pow2_neg)
  have "a / pow2 (e - 52) = of_int (\<bar>n\<bar> * 2 ^ nat (52 - e))"
    by (simp add: ulp a_def)
  then have "round_half_even (a / pow2 (e - 52)) = \<bar>n\<bar> * 2 ^ nat (52 - e)"
    by (simp only: round_half_even_of_int)
  then have "to_double (of_int n) = sgn (of_int n) * of_int (\<bar>n\<bar> * 2 ^ nat (52 - e)) * pow2 (e - 52)"
    using False by (simp add: to_double_def Let_def a_def e_def)
  also have "\<dots> = sgn (of_int n) * \<bar>of_int n\<bar>"
    by (simp add: ulp)
  also have "\<dots> = of_int n"
    by (simp add: sgn_mult_abs)
  finally show ?thesis .
qed

lemma percentage_error:
  "\<bar>to_double (to_double x * 100) - x * 100\<bar> \<le> \<bar>x * 100\<bar> / 2 ^ 51"
proof -
  define y where "y = to_double x"
  define z where "z = to_double (y * 100)"
  have xy: "\<bar>y - x\<bar> \<le> \<bar>x\<bar> / 2 ^ 53"
    unfolding y_def by (rule to_double_error)
  have yz: "\<bar>z - y * 100\<bar> \<le> \<bar>y * 100\<bar> / 2 ^ 53"
    unfolding z_def by (rule to_double_error)
  have "\<bar>y\<bar> \<le> \<bar>x\<bar> + \<bar>x\<bar> / 2 ^ 53"
    using xy by linarith
  also have "\<dots> \<le> 2 * \<bar>x\<bar>"
    by (simp add: field_simps)
  finally have y: "\<bar>y\<bar> \<le> 2 * \<bar>x\<bar>" .
  have "\<bar>z - x * 100\<bar> \<le> \<bar>z - y * 100\<bar> + \<bar>y - x\<bar> * 100"
  proof -
    have eq: "y * 100 - x * 100 = (y - x) * 100"
      by (simp add: algebra_simps)
    have "\<bar>y * 100 - x * 100\<bar> = \<bar>y - x\<bar> * 100"
      unfolding eq abs_mult by simp
    then show ?thesis by linarith
  qed
  also have "\<dots> \<le> \<bar>y\<bar> * 100 / 2 ^ 53 + \<bar>x\<bar> / 2 ^ 53 * 100"
    using xy yz by (simp add: abs_mult)
  also have "\<dots> \<le> 2 * \<bar>x\<bar> * 100 / 2 ^ 53 + \<bar>x\<bar> / 2 ^ 53 * 100"
    using y by (simp add: field_simps)
  also have "\<dots> \<le> \<bar>x * 100\<bar> / 2 ^ 51"
    by (simp add: abs_mult field_simps)
  finally show ?thesis
    by (simp add: y_def z_def)
qed

section \<open>Properties of the usage report\<close>

lemma ordersThisMonth_status:
  "ordersThisMonth date now (updateOrder_status stamp oid st orderList) =
     updateOrder_status stamp oid st (ordersThisMonth date now orderList)"
  by (induction orderList) (simp_all add: ordersThisMonth_def updateOrder_status_def)

lemma length_updateOrder_status [simp]:
  "length (updateOrder_status stamp oid st orderList) = length orderList"
  by (simp add: updateOrder_status_def)

text \<open>
  The order-limit gate counts the same orders, so it is blind to their status too.
\<close>

lemma checkOrderLimit_ignores_status:
  "checkOrderLimit
     (storage\<lparr>getOrdersByStoreId :=
        (\<lambda>storeId. case getOrdersByStoreId storage storeId of
                      Inl e \<Rightarrow> Inl e
                    | Inr orderList \<Rightarrow> Inr (updateOrder_status stamp oid st orderList))\<rparr>)
     date now req =
   checkOrderLimit storage date now req"
  by (simp add: checkOrderLimit_def ordersThisMonth_status
      split: sum.splits option.splits)

lemma getPlanUsage_resolved:
  assumes "getStoreByUserId storage (Some userId) = Inr (Some store)"
    and "getSubscriptionByUserId storage userId = Inr sub"
    and "getPlanBySlug storage ''gratis'' = Inr free"
    and "getProductsByStoreId storage (store_id store) = Inr productList"
    and "getOrdersByStoreId storage (store_id store) = Inr orderList"
  shows "getPlanUsage storage date now userId =
           Some (usage_report (case sub of Some s \<Rightarrow> Some (plan s) | None \<Rightarrow> free)
                   productList (ordersThisMonth date now orderList))"
  using assms by (simp add: getPlanUsage_def await_or_null_def split: option.splits)

lemma getPlanUsage_report:
  assumes "getPlanUsage storage date now userId = Some report"
  shows "\<exists>p productList monthOrders. report = usage_report p productList monthOrders"
  using assms
  by (auto simp: getPlanUsage_def await_or_null_def split: sum.splits option.splits)

text \<open>
  C6. When the reads of \<open>getPlanUsage\<close> resolve, the report's order count is the
  number of the store's orders created at or after
  \<open>new Date(now.getFullYear(), now.getMonth(), 1)\<close>, the instant at which the first day of
  the current month begins in server-local time; an order created before that instant,
  such as one of the last day of the month before, is not counted. The status of an
  order plays no part: giving any order another status, \<open>cancelled\<close> included, leaves
  the whole report as it was.
\<close>

theorem monthly_order_count_ignores_status:
  assumes "getStoreByUserId storage (Some userId) = Inr (Some store)"
    and "getSubscriptionByUserId storage userId = Inr sub"
    and "getPlanBySlug storage ''gratis'' = Inr free"
    and "getProductsByStoreId storage (store_id store) = Inr productList"
    and "getOrdersByStoreId storage (store_id store) = Inr orderList"
  shows "map_option (\<lambda>report. usage_current (usage_orders (usage report)))
             (getPlanUsage storage date now userId) =
           Some (length (filter
             (\<lambda>order. case order_createdAt order of
                         Some t \<Rightarrow> newDate date (getFullYear date now) (getMonth date now) 1 \<le> t
                       | None \<Rightarrow> newDate date (getFullYear date now) (getMonth date now) 1 \<le> 0)
             orderList)) \<and>
         getPlanUsage
             (storage\<lparr>getOrdersByStoreId :=
                (\<lambda>storeId. if storeId = store_id store
                   then Inr (updateOrder_status stamp oid st orderList)
                   else getOrdersByStoreId storage storeId)\<rparr>)
             date now userId =
           getPlanUsage storage date now userId"
proof -
  let ?storage' = "storage\<lparr>getOrdersByStoreId :=
      (\<lambda>storeId. if storeId = store_id store
         then Inr (updateOrder_status stamp oid st orderList)
         else getOrdersByStoreId storage storeId)\<rparr>"
  have same: "(\<lambda>order. firstDayOfMonth date now \<le> date_value (order_createdAt order)) =
      (\<lambda>order. case order_createdAt order of
                  Some t \<Rightarrow> newDate date (getFullYear date now) (getMonth date now) 1 \<le> t
                | None \<Rightarrow> newDate date (getFullYear date now) (getMonth date now) 1 \<le> 0)"
    by (auto simp: date_value_def firstDayOfMonth_def split: option.splits)
  have before: "getPlanUsage storage date now userId =
      Some (usage_report (case sub of Some s \<Rightarrow> Some (plan s) | None \<Rightarrow> free)
              productList (ordersThisMonth date now orderList))"
    using assms by (rule getPlanUsage_resolved)
  have after: "getPlanUsage ?storage' date now userId =
      Some (usage_report (case sub of Some s \<Rightarrow> Some (plan s) | None \<Rightarrow> free)
              productList
              (ordersThisMonth date now (updateOrder_status stamp oid st orderList)))"
    using assms by (intro getPlanUsage_resolved [where store = store]) simp_all
  have report: "usage_report p productList (updateOrder_status stamp oid st monthOrders) =
      usage_report p productList monthOrders" for p monthOrders
    by (simp add: usage_report_def)
  show ?thesis
    unfolding before after ordersThisMonth_status report
    by (simp add: usage_report_def ordersThisMonth_def same)
qed

lemma server_month:
  "firstDayOfMonth server_runtime server_now = month_start"
  "getFullYear server_runtime server_now = 2025"
  "getMonth server_runtime server_now = 10"
  "getMonth server_runtime month_start = 10"
  "getMonth server_runtime (month_start - 1) = 9"
  by code_simp+

theorem monthly_order_count_ignores_status_witness:
  "newDate server_runtime (getFullYear server_runtime server_now)
       (getMonth server_runtime server_now) 1 = month_start \<and>
   getMonth server_runtime (month_start - 1) \<noteq> getMonth server_runtime server_now \<and>
   map_option (\<lambda>report. usage_current (usage_orders (usage report)))
       (getPlanUsage (usage_storage (Some fallback_gratis) [] sample_orders)
          server_runtime server_now ''user-1'') =
     Some 2 \<and>
   map_option (\<lambda>report. usage_current (usage_orders (usage report)))
       (getPlanUsage
          (usage_storage (Some fallback_gratis) []
             (updateOrder_status server_now ''o-3'' ''cancelled'' sample_orders))
          server_runtime server_now ''user-1'') =
     Some 2"
proof -
  let ?st = "usage_storage (Some fallback_gratis) [] sample_orders"
  have reads: "getStoreByUserId ?st (Some ''user-1'') = Inr (Some store_1)"
    "getSubscriptionByUserId ?st ''user-1'' = Inr None"
    "getPlanBySlug ?st ''gratis'' = Inr (Some fallback_gratis)"
    "getProductsByStoreId ?st (store_id store_1) = Inr []"
    "getOrdersByStoreId ?st (store_id store_1) = Inr sample_orders"
    by (simp_all add: usage_storage_def empty_storage_def store_1_def)
  have cancelled: "?st\<lparr>getOrdersByStoreId :=
      (\<lambda>storeId. if storeId = store_id store_1
         then Inr (updateOrder_status server_now ''o-3'' ''cancelled'' sample_orders)
         else getOrdersByStoreId ?st storeId)\<rparr> =
      usage_storage (Some fallback_gratis) []
        (updateOrder_status server_now ''o-3'' ''cancelled'' sample_orders)"
    by (simp add: usage_storage_def empty_storage_def store_1_def fun_eq_iff)
  have boundary: "newDate server_runtime (getFullYear server_runtime server_now)
      (getMonth server_runtime server_now) 1 = month_start"
    using server_month(1) by (simp add: firstDayOfMonth_def)
  have counted: "length (filter
      (\<lambda>order. case order_createdAt order of
                  Some t \<Rightarrow> month_start \<le> t
                | None \<Rightarrow> month_start \<le> 0) sample_orders) = 2"
    by (simp add: sample_orders_def order_at_def)
  note count = monthly_order_count_ignores_status [OF reads,
      where date = server_runtime and now = server_now and stamp = server_now
        and oid = "''o-3''" and st = "''cancelled''"]
  show ?thesis
    using count unfolding cancelled boundary counted by (simp add: server_month)
qed

text \<open>
  C7, as stated, fails for a plan whose limit is 0: the limit is not null, the claim's
  \<open>current / limit * 100\<close> is \<open>Infinity\<close> for three products, and the report says 0.
\<close>

theorem zero_limit_percentage_counterexample:
  "map_option (\<lambda>report. usage_products (usage report))
       (getPlanUsage
          (usage_storage (Some closed_plan) [sample_product, sample_product, sample_product] [])
          server_runtime server_now ''user-1'') =
     Some \<lparr>usage_current = 3, usage_limit = Some 0, percentage = Finite 0\<rparr> \<and>
   spec_percentage 3 (Some 0) = Infinity"
  by (simp add: getPlanUsage_def await_or_null_def usage_storage_def empty_storage_def
      store_1_def usage_report_def plan_field_def closed_plan_def usage_percentage_def
      spec_percentage_def js_divide_def js_times_100_def)

text \<open>
  C7, amended. In every usage report each percentage equals \<open>current / limit * 100\<close>
  when the corresponding plan limit is neither null nor zero, and 0 when the limit is
  null or zero (or the plan is absent); in particular for an unlimited plan the
  products percentage is 0 for every product count. The quotient and the product are
  those of the runtime: the quotient is rounded to a double, its product with 100 is
  rounded again, and the result lies within \<open>2 ^ -51\<close> of the exact value.
\<close>

theorem usage_percentage_of_report:
  assumes "getPlanUsage storage date now userId = Some report"
  shows "percentage (usage_products (usage report)) =
           (case usage_limit (usage_products (usage report)) of
              None \<Rightarrow> Finite 0
            | Some l \<Rightarrow>
                if l = 0 then Finite 0
                else Finite (to_double (to_double
                       (of_nat (usage_current (usage_products (usage report))) / of_int l) * 100))) \<and>
         percentage (usage_orders (usage report)) =
           (case usage_limit (usage_orders (usage report)) of
              None \<Rightarrow> Finite 0
            | Some l \<Rightarrow>
                if l = 0 then Finite 0
                else Finite (to_double (to_double
                       (of_nat (usage_current (usage_orders (usage report))) / of_int l) * 100))) \<and>
         usage_limit (usage_products (usage report)) = summary_maxProducts (usage_plan report) \<and>
         usage_limit (usage_orders (usage report)) = summary_maxOrders (usage_plan report) \<and>
         \<bar>to_double (to_double (of_nat n / of_int l) * 100) - of_nat n / of_int l * 100\<bar> \<le>
           \<bar>of_nat n / of_int l * 100\<bar> / 2 ^ 51"
proof -
  from getPlanUsage_report [OF assms]
  obtain p productList monthOrders where "report = usage_report p productList monthOrders"
    by blast
  then have "percentage (usage_products (usage report)) =
           (case usage_limit (usage_products (usage report)) of
              None \<Rightarrow> Finite 0
            | Some l \<Rightarrow>
                if l = 0 then Finite 0
                else Finite (to_double (to_double
                       (of_nat (usage_current (usage_products (usage report))) / of_int l) * 100))) \<and>
         percentage (usage_orders (usage report)) =
           (case usage_limit (usage_orders (usage report)) of
              None \<Rightarrow> Finite 0
            | Some l \<Rightarrow>
                if l = 0 then Finite 0
                else Finite (to_double (to_double
                       (of_nat (usage_current (usage_orders (usage report))) / of_int l) * 100))) \<and>
         usage_limit (usage_products (usage report)) = summary_maxProducts (usage_plan report) \<and>
         usage_limit (usage_orders (usage report)) = summary_maxOrders (usage_plan report)"
    by (simp add: usage_report_def usage_percentage_def js_divide_def js_times_100_def
        split: option.splits)
  then show ?thesis
    using percentage_error [of "of_nat n / of_int l"] by simp
qed

lemma doubles_of_samples:
  "to_double (to_double (7 / 50) * 100) = 14 + 1 / 2 ^ 49"
  "to_double (to_double (4 / 5) * 100) = 80"
  by code_simp+

theorem usage_percentage_of_report_witness:
  "map_option (\<lambda>report. usage_products (usage report))
       (getPlanUsage (usage_storage (Some fallback_enterprise) (replicate 10000 sample_product) [])
          server_runtime server_now ''user-1'') =
     Some \<lparr>usage_current = 10000, usage_limit = None, percentage = Finite 0\<rparr> \<and>
   map_option (\<lambda>report. usage_products (usage report))
       (getPlanUsage (usage_storage (Some fallback_enterprise) [] [])
          server_runtime server_now ''user-1'') =
     Some \<lparr>usage_current = 0, usage_limit = None, percentage = Finite 0\<rparr> \<and>
   map_option (\<lambda>report. usage_products (usage report))
       (getPlanUsage (usage_storage (Some fallback_gratis) (replicate 4 sample_product) [])
          server_runtime server_now ''user-1'') =
     Some \<lparr>usage_current = 4, usage_limit = Some 5, percentage = Finite 80\<rparr> \<and>
   map_option (\<lambda>report. usage_products (usage report))
       (getPlanUsage (subscribed_storage (replicate 7 sample_product) [])
          server_runtime server_now ''user-1'') =
     Some \<lparr>usage_current = 7, usage_limit = Some 50, percentage = Finite (14 + 1 / 2 ^ 49)\<rparr>"
proof -
  have report: "getPlanUsage (usage_storage free productList []) server_runtime server_now ''user-1'' =
      Some (usage_report free productList [])" for free productList
    by (simp add: getPlanUsage_def await_or_null_def usage_storage_def empty_storage_def
        store_1_def ordersThisMonth_def)
  have subscribed: "getPlanUsage (subscribed_storage productList []) server_runtime server_now
        ''user-1'' =
      Some (usage_report (Some fallback_basico) productList [])" for productList
    by (simp add: getPlanUsage_def await_or_null_def subscribed_storage_def usage_storage_def
        empty_storage_def store_1_def ordersThisMonth_def with_plan_def)
  have fields:
    "usage_current (usage_products (usage (usage_report free productList []))) = length productList"
    "usage_limit (usage_products (usage (usage_report free productList []))) =
       plan_field free maxProducts" for free productList
    by (simp_all add: usage_report_def)
  have limits: "plan_field (Some fallback_enterprise) maxProducts = None"
    "plan_field (Some fallback_gratis) maxProducts = Some 5"
    "plan_field (Some fallback_basico) maxProducts = Some 50"
    by (simp_all add: plan_field_def fallback_enterprise_def fallback_gratis_def
        fallback_basico_def)
  note many = usage_percentage_of_report
      [OF report [of "Some fallback_enterprise" "replicate 10000 sample_product"]]
  note zero = usage_percentage_of_report [OF report [of "Some fallback_enterprise" "[]"]]
  note four = usage_percentage_of_report
      [OF report [of "Some fallback_gratis" "replicate 4 sample_product"]]
  note seven = usage_percentage_of_report [OF subscribed [of "replicate 7 sample_product"]]
  have a: "usage_products (usage (usage_report (Some fallback_enterprise)
        (replicate 10000 sample_product) [])) =
      \<lparr>usage_current = 10000, usage_limit = None, percentage = Finite 0\<rparr>"
    using many by (intro UsageEntry.equality) (simp_all add: fields limits)
  have b: "usage_products (usage (usage_report (Some fallback_enterprise) [] [])) =
      \<lparr>usage_current = 0, usage_limit = None, percentage = Finite 0\<rparr>"
    using zero by (intro UsageEntry.equality) (simp_all add: fields limits)
  have c: "usage_products (usage (usage_report (Some fallback_gratis)
        (replicate 4 sample_product) [])) =
      \<lparr>usage_current = 4, usage_limit = Some 5, percentage = Finite 80\<rparr>"
    using four by (intro UsageEntry.equality) (simp_all add: fields limits doubles_of_samples)
  have d: "usage_products (usage (usage_report (Some fallback_basico)
        (replicate 7 sample_product) [])) =
      \<lparr>usage_current = 7, usage_limit = Some 50, percentage = Finite (14 + 1 / 2 ^ 49)\<rparr>"
    using seven by (intro UsageEntry.equality) (simp_all add: fields limits doubles_of_samples)
  show ?thesis
    by (simp add: report subscribed a b c d)
qed

section \<open>Properties of the plan catalogue\<close>

lemma fallback_slugs:
  "map plan_slug fallbackPlans = [''gratis'', ''basico'', ''profissional'', ''enterprise'']"
  by (simp add: fallbackPlans_def fallback_gratis_def fallback_basico_def
      fallback_profissional_def fallback_enterprise_def)

lemma fallback_prices: "map price fallbackPlans = [0, 2990 / 100, 7990 / 100, 19990 / 100]"
  by (simp add: fallbackPlans_def fallback_gratis_def fallback_basico_def
      fallback_profissional_def fallback_enterprise_def)

lemma get_plans_route_fresh:
  "plansCache st = Some cached \<Longrightarrow> now - plansCacheTime st < CACHE_TTL \<Longrightarrow>
     get_plans_route storage now st = (st, cached)"
  by (simp add: get_plans_route_def)

lemma get_plans_route_fetched:
  "plansCache st = None \<or> \<not> now - plansCacheTime st < CACHE_TTL \<Longrightarrow>
   getAllPlans storage = Inr plans \<Longrightarrow>
     get_plans_route storage now st = (\<lparr>plansCache = Some plans, plansCacheTime = now\<rparr>, plans)"
  by (auto simp: get_plans_route_def Let_def split: option.splits)

text \<open>
  C8. When the plan query rejects, the route still answers: with the cached plans if a
  cache exists, however old, and otherwise with the four hardcoded plans, whose slugs
  are \<open>gratis\<close>, \<open>basico\<close>, \<open>profissional\<close>, \<open>enterprise\<close> and whose prices ascend. The
  cache is left as it was.
\<close>

theorem plans_route_survives_storage_failure:
  assumes "getAllPlans storage = Inl e"
  shows "(plansCache st = Some cached \<longrightarrow> get_plans_route storage now st = (st, cached)) \<and>
         (plansCache st = None \<longrightarrow> get_plans_route storage now st = (st, fallbackPlans)) \<and>
         map plan_slug fallbackPlans = [''gratis'', ''basico'', ''profissional'', ''enterprise''] \<and>
         sorted_wrt (<) (map price fallbackPlans)"
  using assms
  by (simp add: get_plans_route_def fallback_slugs fallback_prices)

theorem plans_route_survives_storage_failure_witness:
  "get_plans_route (empty_storage\<lparr>getAllPlans := Inl StorageError\<rparr>) 1000 initial_cache =
     (initial_cache, fallbackPlans) \<and>
   get_plans_route (empty_storage\<lparr>getAllPlans := Inr [fallback_gratis]\<rparr>) 1000 initial_cache =
     (\<lparr>plansCache = Some [fallback_gratis], plansCacheTime = 1000\<rparr>, [fallback_gratis]) \<and>
   get_plans_route (empty_storage\<lparr>getAllPlans := Inl StorageError\<rparr>) 900000
       \<lparr>plansCache = Some [fallback_gratis], plansCacheTime = 1000\<rparr> =
     (\<lparr>plansCache = Some [fallback_gratis], plansCacheTime = 1000\<rparr>, [fallback_gratis])"
proof -
  have down: "getAllPlans (empty_storage\<lparr>getAllPlans := Inl StorageError\<rparr>) = Inl StorageError"
    by simp
  have up: "getAllPlans (empty_storage\<lparr>getAllPlans := Inr [fallback_gratis]\<rparr>) =
      Inr [fallback_gratis]"
    by simp
  note cold = plans_route_survives_storage_failure [OF down, where st = initial_cache and now = 1000]
  note stale = plans_route_survives_storage_failure [OF down,
      where st = "\<lparr>plansCache = Some [fallback_gratis], plansCacheTime = 1000\<rparr>"
        and now = 900000 and cached = "[fallback_gratis]"]
  have filled: "get_plans_route (empty_storage\<lparr>getAllPlans := Inr [fallback_gratis]\<rparr>) 1000
      initial_cache =
     (\<lparr>plansCache = Some [fallback_gratis], plansCacheTime = 1000\<rparr>, [fallback_gratis])"
    using up by (intro get_plans_route_fetched) (simp_all add: initial_cache_def)
  show ?thesis
    using cold stale filled by (simp add: initial_cache_def)
qed

end
